theory Spec2Isabelle
  imports Complex_Main
begin

section \<open>HicTrackConfig: when an option change needs new data\<close>

text \<open>
  \<^verbatim>\<open>HicTrackConfig.shouldFetchBecauseOptionChange\<close> compares two option objects.
  The type \<^verbatim>\<open>TrackOptions\<close> and the enumerations \<^verbatim>\<open>BinSize\<close> and
  \<^verbatim>\<open>NormalizationMode\<close> are imported from files that are not among the verified sources, so the
  types of the two fields the method reads are type parameters, and a third parameter
  stands for every other option of the object. On values of an enumeration the strict
  inequality \<^verbatim>\<open>!==\<close> is inequality of values.
\<close>

record ('n, 'b, 'o) TrackOptions =
  normalization :: 'n
  binSize :: 'b
  otherOptions :: 'o

definition shouldFetchBecauseOptionChange ::
  "('n, 'b, 'o) TrackOptions \<Rightarrow> ('n, 'b, 'o) TrackOptions \<Rightarrow> bool" where
  "shouldFetchBecauseOptionChange oldOptions newOptions \<longleftrightarrow>
     normalization oldOptions \<noteq> normalization newOptions \<or>
     binSize oldOptions \<noteq> binSize newOptions"

section \<open>Objects, references and errors\<close>

text \<open>
  JavaScript objects have identity: two variables may hold the same object, and a copy is
  a different object with equal fields. Objects therefore live in a heap, a list of
  objects, and a reference is an index into it. Creating an object appends it to the heap
  and yields the new index; nothing is ever removed.
\<close>

type_synonym ref = nat

type_synonym 'obj heap = "'obj list"

definition alloc :: "'obj heap \<Rightarrow> 'obj \<Rightarrow> 'obj heap \<times> ref" where
  "alloc h obj = (h @ [obj], length h)"

text \<open>
  The exceptions that the modelled code can raise: the language's \<^verbatim>\<open>TypeError\<close> for a
  property read on \<^verbatim>\<open>undefined\<close>, a plain \<^verbatim>\<open>Error\<close> with its message, and the rejection
  of a \<^verbatim>\<open>fetch\<close>.
\<close>

datatype js_error = TypeError | Error string | FetchRejected

section \<open>Numbers\<close>

text \<open>
  A JavaScript number is a double: a finite number, one of the two infinities, or NaN.
  The model keeps a finite number as the real it stands for. An operation on finite
  numbers gives the exact result when that lies within the range of the doubles, and the
  infinity of its sign when it does not: a result overflows when it is at least
  \<open>2 ^ 1024 - 2 ^ 970\<close> in absolute value, the first real that rounds to an infinity. The
  operations on infinities and NaN follow the IEEE rules. Two things are left out: the
  rounding of a result that is within the range (to the nearest double; for a result close
  to zero, to a subnormal number or to zero), and the sign of zero (a zero divisor is taken
  as the positive zero). No theorem below rests on an unrounded result: where one names a
  finite result, the operation is exact in doubles, or the result, such as 1/5, stands for
  the double nearest to it.
\<close>

datatype js_number = Fin real | PosInfinity | NegInfinity | NaN

definition double_overflow :: real where
  "double_overflow = 2 ^ 1024 - 2 ^ 970"

definition finite_result :: "real \<Rightarrow> js_number" where
  "finite_result x =
     (if double_overflow \<le> x then PosInfinity
      else if x \<le> - double_overflow then NegInfinity
      else Fin x)"

fun math_min :: "js_number \<Rightarrow> js_number \<Rightarrow> js_number" where
  "math_min NaN b = NaN"
| "math_min a NaN = NaN"
| "math_min NegInfinity b = NegInfinity"
| "math_min a NegInfinity = NegInfinity"
| "math_min PosInfinity b = b"
| "math_min a PosInfinity = a"
| "math_min (Fin a) (Fin b) = Fin (min a b)"

fun math_max :: "js_number \<Rightarrow> js_number \<Rightarrow> js_number" where
  "math_max NaN b = NaN"
| "math_max a NaN = NaN"
| "math_max PosInfinity b = PosInfinity"
| "math_max a PosInfinity = PosInfinity"
| "math_max NegInfinity b = b"
| "math_max a NegInfinity = a"
| "math_max (Fin a) (Fin b) = Fin (max a b)"

fun js_plus :: "js_number \<Rightarrow> js_number \<Rightarrow> js_number" where
  "js_plus NaN b = NaN"
| "js_plus a NaN = NaN"
| "js_plus PosInfinity NegInfinity = NaN"
| "js_plus NegInfinity PosInfinity = NaN"
| "js_plus PosInfinity b = PosInfinity"
| "js_plus NegInfinity b = NegInfinity"
| "js_plus (Fin a) PosInfinity = PosInfinity"
| "js_plus (Fin a) NegInfinity = NegInfinity"
| "js_plus (Fin a) (Fin b) = finite_result (a + b)"

fun js_minus :: "js_number \<Rightarrow> js_number \<Rightarrow> js_number" where
  "js_minus NaN b = NaN"
| "js_minus a NaN = NaN"
| "js_minus PosInfinity PosInfinity = NaN"
| "js_minus NegInfinity NegInfinity = NaN"
| "js_minus PosInfinity b = PosInfinity"
| "js_minus NegInfinity b = NegInfinity"
| "js_minus (Fin a) PosInfinity = NegInfinity"
| "js_minus (Fin a) NegInfinity = PosInfinity"
| "js_minus (Fin a) (Fin b) = finite_result (a - b)"

fun js_times :: "js_number \<Rightarrow> js_number \<Rightarrow> js_number" where
  "js_times NaN b = NaN"
| "js_times a NaN = NaN"
| "js_times (Fin a) (Fin b) = finite_result (a * b)"
| "js_times (Fin a) PosInfinity =
     (if a = 0 then NaN else if 0 < a then PosInfinity else NegInfinity)"
| "js_times (Fin a) NegInfinity =
     (if a = 0 then NaN else if 0 < a then NegInfinity else PosInfinity)"
| "js_times PosInfinity (Fin b) =
     (if b = 0 then NaN else if 0 < b then PosInfinity else NegInfinity)"
| "js_times NegInfinity (Fin b) =
     (if b = 0 then NaN else if 0 < b then NegInfinity else PosInfinity)"
| "js_times PosInfinity PosInfinity = PosInfinity"
| "js_times PosInfinity NegInfinity = NegInfinity"
| "js_times NegInfinity PosInfinity = NegInfinity"
| "js_times NegInfinity NegInfinity = PosInfinity"

fun js_divide :: "js_number \<Rightarrow> js_number \<Rightarrow> js_number" where
  "js_divide NaN b = NaN"
| "js_divide a NaN = NaN"
| "js_divide (Fin a) (Fin b) =
     (if b = 0 then (if a = 0 then NaN else if 0 < a then PosInfinity else NegInfinity)
      else finite_result (a / b))"
| "js_divide (Fin a) b = Fin 0"
| "js_divide PosInfinity (Fin b) = (if b < 0 then NegInfinity else PosInfinity)"
| "js_divide NegInfinity (Fin b) = (if b < 0 then PosInfinity else NegInfinity)"
| "js_divide a b = NaN"

text \<open>The comparison \<^verbatim>\<open><\<close>: false whenever an operand is NaN.\<close>

fun js_less :: "js_number \<Rightarrow> js_number \<Rightarrow> bool" where
  "js_less NaN b = False"
| "js_less a NaN = False"
| "js_less (Fin a) (Fin b) = (a < b)"
| "js_less (Fin a) PosInfinity = True"
| "js_less (Fin a) NegInfinity = False"
| "js_less PosInfinity b = False"
| "js_less NegInfinity NegInfinity = False"
| "js_less NegInfinity b = True"

section \<open>TrackContainer: selecting tracks\<close>

text \<open>
  Modelled from the spec: the class \<^verbatim>\<open>TrackModel\<close>, which TrackContainer.js imports
  from a file that is not among the verified sources. The spec describes a track
  descriptor as identity, display configuration and a selected flag. The only field the
  container reads or writes is \<^verbatim>\<open>isSelected\<close>; the type parameter stands for all the
  other fields.
\<close>

record 'a TrackModel =
  isSelected :: bool
  otherFields :: 'a

text \<open>
  Modelled from the spec: \<^verbatim>\<open>TrackModel.clone\<close>, which is missing. The spec gives track
  descriptors a clone contract with value semantics: the clone is a new descriptor of
  equal value, and the original is left as it is.
\<close>

definition TrackModel_clone :: "'a TrackModel heap \<Rightarrow> ref \<Rightarrow> 'a TrackModel heap \<times> ref" where
  "TrackModel_clone h track = alloc h (h ! track)"

text \<open>
  \<^verbatim>\<open>toggleOneTrack(tracks, index)\<close> replaces the element at \<^verbatim>\<open>index\<close> by a clone and
  negates the clone's flag. The array is the caller's own copy, so the model returns the
  updated array together with the updated heap. Outside the array \<^verbatim>\<open>tracks[index]\<close> is
  \<^verbatim>\<open>undefined\<close> and the call of \<^verbatim>\<open>clone\<close> on it raises a TypeError.
\<close>

definition toggleOneTrack ::
  "'a TrackModel heap \<Rightarrow> ref list \<Rightarrow> nat \<Rightarrow> js_error + 'a TrackModel heap \<times> ref list" where
  "toggleOneTrack h tracks index =
     (if index < length tracks then
        (case TrackModel_clone h (tracks ! index) of
           (h1, copy) \<Rightarrow>
             let tracks1 = tracks[index := copy];
                 target = tracks1 ! index
             in Inr (h1[target := (h1 ! target)\<lparr>isSelected := \<not> isSelected (h1 ! target)\<rparr>],
                     tracks1))
      else Inl TypeError)"

text \<open>
  A mouse event, as far as the container looks at it. The constant \<^verbatim>\<open>MouseButtons.LEFT\<close>
  comes from a file that is not among the verified sources and is a parameter of \<^verbatim>\<open>trackClicked\<close>.
  A handler returns the heap and what it passed to the callback \<^verbatim>\<open>onTracksChanged\<close>:
  \<open>None\<close> when the callback was not called.
\<close>

record MouseEvent =
  button :: int
  ctrlKey :: bool

definition slice :: "'x list \<Rightarrow> 'x list" where
  "slice xs = xs"

definition trackClicked ::
  "int \<Rightarrow> 'a TrackModel heap \<Rightarrow> ref list \<Rightarrow> MouseEvent \<Rightarrow> nat
     \<Rightarrow> js_error + 'a TrackModel heap \<times> ref list option" where
  "trackClicked LEFT h tracks event index =
     (if button event = LEFT \<and> ctrlKey event then
        (case toggleOneTrack h (slice tracks) index of
           Inl e \<Rightarrow> Inl e
         | Inr (h', nextTracks) \<Rightarrow> Inr (h', Some nextTracks))
      else Inr (h, None))"

text \<open>
  \<^verbatim>\<open>deselectAllTracks\<close> maps over the tracks: a selected track is replaced by a clone
  whose flag is cleared, an unselected one is kept as the same object. The recursion is
  the array's \<^verbatim>\<open>map\<close> with the heap passed along.
\<close>

fun deselectAllTracks :: "'a TrackModel heap \<Rightarrow> ref list \<Rightarrow> 'a TrackModel heap \<times> ref list" where
  "deselectAllTracks h [] = (h, [])"
| "deselectAllTracks h (track # rest) =
     (if isSelected (h ! track) then
        (case TrackModel_clone h track of
           (h1, clone) \<Rightarrow>
             (case deselectAllTracks (h1[clone := (h1 ! clone)\<lparr>isSelected := False\<rparr>]) rest of
                (h2, rest') \<Rightarrow> (h2, clone # rest')))
      else
        (case deselectAllTracks h rest of (h2, rest') \<Rightarrow> (h2, track # rest')))"

definition handleOutsideClick ::
  "'a TrackModel heap \<Rightarrow> ref list \<Rightarrow> MouseEvent \<Rightarrow> 'a TrackModel heap \<times> ref list option" where
  "handleOutsideClick h tracks event =
     (if list_ex (\<lambda>track. isSelected (h ! track)) tracks then
        (case deselectAllTracks h tracks of (h', nextTracks) \<Rightarrow> (h', Some nextTracks))
      else (h, None))"

text \<open>
  Every element of a track array refers to an object that exists. The tracks shown after
  a handler ran are the ones it passed to the callback, or the old ones when it did not
  call it.
\<close>

definition valid_refs :: "'obj heap \<Rightarrow> ref list \<Rightarrow> bool" where
  "valid_refs h tracks = list_all (\<lambda>r. r < length h) tracks"

definition tracks_after :: "ref list \<Rightarrow> ref list option \<Rightarrow> ref list" where
  "tracks_after tracks emitted = (case emitted of None \<Rightarrow> tracks | Some nextTracks \<Rightarrow> nextTracks)"

definition track_values :: "'obj heap \<Rightarrow> ref list \<Rightarrow> 'obj list" where
  "track_values h tracks = map (\<lambda>r. h ! r) tracks"

section \<open>GenomeNavigator: the view region\<close>

text \<open>
  The classes \<^verbatim>\<open>DisplayedRegionModel\<close> and its navigation context are imported by the
  navigator from files that are not among the verified sources; the navigator calls the
  methods \<^verbatim>\<open>clone\<close>, \<^verbatim>\<open>zoom\<close>, \<^verbatim>\<open>setRegion\<close>, \<^verbatim>\<open>getWidth\<close> and
  \<^verbatim>\<open>getNavigationContext\<close> of a region and \<^verbatim>\<open>getTotalBases\<close> of a context. The spec
  describes a view region as a navigational interval over a coordinate space (a navigation
  context) that supports zoom (scale by factor around a focal point) and explicit
  range-set. What the navigator itself does, in \<^verbatim>\<open>_setModelState\<close>, is a comparison and no
  arithmetic; the theorems about it hold whatever the methods of the region compute.
\<close>

text \<open>
  Modelled from the spec: the navigation context, which is missing. The coordinate space
  of a region, known by its total number of bases.
\<close>

record NavigationContext =
  totalBases :: js_number

text \<open>
  Modelled from the spec: the class \<^verbatim>\<open>DisplayedRegionModel\<close>, which is missing. A view
  region is an interval over a coordinate space: the space and the two ends.
\<close>

record DisplayedRegionModel =
  navContext :: NavigationContext
  startBase :: js_number
  endBase :: js_number

text \<open>
  Modelled from the spec: \<^verbatim>\<open>DisplayedRegionModel.getWidth\<close>, which is missing. The width
  of the interval.
\<close>

definition getWidth :: "DisplayedRegionModel \<Rightarrow> js_number" where
  "getWidth r = js_minus (endBase r) (startBase r)"

text \<open>
  Modelled from the spec: \<^verbatim>\<open>DisplayedRegionModel.clone\<close>, which is missing. A copy of
  equal value.
\<close>

definition DisplayedRegionModel_clone :: "DisplayedRegionModel \<Rightarrow> DisplayedRegionModel" where
  "DisplayedRegionModel_clone r = r"

text \<open>
  Modelled from the spec: \<^verbatim>\<open>DisplayedRegionModel.setRegion\<close>, which is missing. The
  explicit range-set: the interval gets the two ends given, over the same coordinate
  space. The spec does not say what the class does with ends that leave the space; the
  model takes them as given, and the examples below stay inside the space.
\<close>

definition setRegion ::
  "js_number \<Rightarrow> js_number \<Rightarrow> DisplayedRegionModel \<Rightarrow> DisplayedRegionModel" where
  "setRegion newStart newEnd r = r\<lparr>startBase := newStart, endBase := newEnd\<rparr>"

text \<open>
  Modelled from the spec: \<^verbatim>\<open>DisplayedRegionModel.zoom\<close>, which is missing. Zooming scales
  the width by the factor around a focal point: the point, given as a fraction of the
  width, stays where it is, and the new interval is set as by a range-set. The spec does
  not say where the focal point lies when the caller leaves it out, as the navigator's
  buttons do; the centre is taken. The products and sums are those of the numbers above,
  so a result is exact only where doubles are; the examples below use such numbers, and no
  theorem says that a zoom by a factor and a zoom by its inverse cancel.
\<close>

definition DisplayedRegionModel_zoom ::
  "js_number \<Rightarrow> js_number option \<Rightarrow> DisplayedRegionModel \<Rightarrow> DisplayedRegionModel" where
  "DisplayedRegionModel_zoom factor focalPoint r =
     (let focal = (case focalPoint of None \<Rightarrow> Fin (1 / 2) | Some p \<Rightarrow> p);
          newWidth = js_times (getWidth r) factor;
          focalBase = js_plus (startBase r) (js_times focal (getWidth r));
          newStart = js_minus focalBase (js_times focal newWidth)
      in setRegion newStart (js_plus newStart newWidth) r)"

text \<open>
  \<^verbatim>\<open>_setModelState(methodName, args)\<close> calls a method of the region by its name. The two
  calls the navigator makes are a datatype; \<open>apply_call\<close> is the dispatch
  \<^verbatim>\<open>regionCopy[methodName].apply(regionCopy, args)\<close>.
\<close>

datatype model_call =
  Call_zoom js_number "js_number option"
| Call_setRegion js_number js_number

fun apply_call :: "model_call \<Rightarrow> DisplayedRegionModel \<Rightarrow> DisplayedRegionModel" where
  "apply_call (Call_zoom amount focusPoint) r = DisplayedRegionModel_zoom amount focusPoint r"
| "apply_call (Call_setRegion newStart newEnd) r = setRegion newStart newEnd r"

text \<open>
  The navigator's state is its view region. The copy made by \<^verbatim>\<open>clone\<close> is local to
  \<^verbatim>\<open>_setModelState\<close> until it is stored, so regions are values here. The constant
  \<^verbatim>\<open>MIN_VIEW_REGION_SIZE\<close> is imported from a file that is not among the verified sources
  and is a parameter. When the width of the changed copy is less than the constant the
  method returns before \<^verbatim>\<open>setState\<close>, and the state stays as it was.
\<close>

record GenomeNavigator_state =
  viewRegion :: DisplayedRegionModel

definition setModelState ::
  "js_number \<Rightarrow> model_call \<Rightarrow> GenomeNavigator_state \<Rightarrow> GenomeNavigator_state" where
  "setModelState MIN_VIEW_REGION_SIZE call st =
     (let regionCopy = apply_call call (DisplayedRegionModel_clone (viewRegion st))
      in if js_less (getWidth regionCopy) MIN_VIEW_REGION_SIZE then st
         else st\<lparr>viewRegion := regionCopy\<rparr>)"


definition setNewView ::
  "js_number \<Rightarrow> js_number \<Rightarrow> js_number \<Rightarrow> GenomeNavigator_state
     \<Rightarrow> GenomeNavigator_state" where
  "setNewView MIN_VIEW_REGION_SIZE newStart newEnd st =
     setModelState MIN_VIEW_REGION_SIZE (Call_setRegion newStart newEnd) st"


section \<open>GenomeModelService: the chromosome cache\<close>

subsection \<open>Vectors, boxes and scales\<close>

text \<open>
  \<^verbatim>\<open>THREE.Vector3\<close> and \<^verbatim>\<open>THREE.Box3\<close>, as far as the service uses them. The constructor
  \<^verbatim>\<open>new THREE.Vector3(...pos)\<close> takes the first three numbers of the array and zero for a
  missing one. A new box is empty: its minimum is plus infinity and its maximum minus
  infinity on every axis. \<^verbatim>\<open>expandByPoint\<close> takes the minimum and the maximum per axis.
\<close>

record Vector3 =
  vec_x :: js_number
  vec_y :: js_number
  vec_z :: js_number

fun new_Vector3 :: "js_number list \<Rightarrow> Vector3" where
  "new_Vector3 [] = \<lparr>vec_x = Fin 0, vec_y = Fin 0, vec_z = Fin 0\<rparr>"
| "new_Vector3 [a] = \<lparr>vec_x = a, vec_y = Fin 0, vec_z = Fin 0\<rparr>"
| "new_Vector3 [a, b] = \<lparr>vec_x = a, vec_y = b, vec_z = Fin 0\<rparr>"
| "new_Vector3 (a # b # c # ignored) = \<lparr>vec_x = a, vec_y = b, vec_z = c\<rparr>"

record Box3 =
  box_min :: Vector3
  box_max :: Vector3

definition new_Box3 :: Box3 where
  "new_Box3 =
     \<lparr>box_min = \<lparr>vec_x = PosInfinity, vec_y = PosInfinity, vec_z = PosInfinity\<rparr>,
      box_max = \<lparr>vec_x = NegInfinity, vec_y = NegInfinity, vec_z = NegInfinity\<rparr>\<rparr>"

definition expandByPoint :: "Box3 \<Rightarrow> Vector3 \<Rightarrow> Box3" where
  "expandByPoint box point =
     \<lparr>box_min = \<lparr>vec_x = math_min (vec_x (box_min box)) (vec_x point),
                  vec_y = math_min (vec_y (box_min box)) (vec_y point),
                  vec_z = math_min (vec_z (box_min box)) (vec_z point)\<rparr>,
      box_max = \<lparr>vec_x = math_max (vec_x (box_max box)) (vec_x point),
                  vec_y = math_max (vec_y (box_max box)) (vec_y point),
                  vec_z = math_max (vec_z (box_max box)) (vec_z point)\<rparr>\<rparr>"

text \<open>
  A linear scale of d3 is kept as the two pairs that \<^verbatim>\<open>domain\<close> and \<^verbatim>\<open>range\<close> were called
  with.
\<close>

record ScaleLinear =
  scale_domain :: "js_number \<times> js_number"
  scale_range :: "js_number \<times> js_number"

definition scaleLinear :: "js_number \<times> js_number \<Rightarrow> js_number \<times> js_number \<Rightarrow> ScaleLinear" where
  "scaleLinear domain_ends range_ends = \<lparr>scale_domain = domain_ends, scale_range = range_ends\<rparr>"

subsection \<open>The cached details\<close>

text \<open>
  \<^verbatim>\<open>ChromosomeInterval\<close> is imported from a file that is not among the verified sources; the
  service only constructs one from a name and two numbers, and an interval is the record
  of the three. \<^verbatim>\<open>RangeInterval\<close> is a pair of numbers. The JSON document of a chromosome
  has the shape that the service declares for it and the spec expects: the genomic
  coordinates, a list of pairs, and the positions, a list of lists of numbers. A number of
  the document is a finite double, or an infinity where the literal is beyond the range of
  the doubles.
\<close>

record ChromosomeInterval =
  interval_chr :: string
  interval_start :: js_number
  interval_end :: js_number

record ChromosomeModelDetails =
  boundingBox :: Box3
  scale_x :: ScaleLinear
  scale_y :: ScaleLinear
  scale_z :: ScaleLinear
  positions :: "Vector3 list"
  genomicCoords :: "(js_number \<times> js_number) list"
  interval :: ChromosomeInterval

record chromosome_json =
  json_genomicCoords :: "(js_number \<times> js_number) list"
  json_xyzPositions :: "js_number list list"

text \<open>
  Lines 40 to 85 of \<^verbatim>\<open>loadChromosomeAsync\<close>: the object built from the fetched document
  (the local names \<open>coords\<close>, \<open>points\<close>, \<open>box\<close> and \<open>chrInterval\<close> stand for the source's
  \<^verbatim>\<open>genomicCoords\<close>, \<^verbatim>\<open>positions\<close>, \<^verbatim>\<open>boundingBox\<close> and \<^verbatim>\<open>interval\<close>, which name the
  fields of the record here). With no genomic coordinates \<^verbatim>\<open>genomicCoords[0]\<close> is
  \<^verbatim>\<open>undefined\<close> and reading its first entry raises a TypeError. The loop over the
  coordinates only writes to the console.
\<close>

definition buildDetails :: "chromosome_json \<Rightarrow> js_error + ChromosomeModelDetails" where
  "buildDetails data =
     (let coords = json_genomicCoords data;
          points = map new_Vector3 (json_xyzPositions data);
          box = fold (\<lambda>pos b. expandByPoint b pos) points new_Box3
      in case coords of
           [] \<Rightarrow> Inl TypeError
         | first # others \<Rightarrow>
             let chrInterval = \<lparr>interval_chr = ''chr21'',
                                interval_start = fst first,
                                interval_end = snd (last coords)\<rparr>;
                 xLen = js_minus (vec_x (box_max box)) (vec_x (box_min box));
                 yLen = js_minus (vec_y (box_max box)) (vec_y (box_min box));
                 zLen = js_minus (vec_z (box_max box)) (vec_z (box_min box));
                 largestLen = math_max (math_max xLen yLen) zLen;
                 x = scaleLinear (vec_x (box_min box), vec_x (box_max box))
                       (Fin 0, js_divide xLen largestLen);
                 y = scaleLinear (vec_y (box_min box), vec_y (box_max box))
                       (Fin 0, js_divide yLen largestLen);
                 z = scaleLinear (vec_z (box_min box), vec_z (box_max box))
                       (Fin 0, js_divide zLen largestLen)
             in Inr \<lparr>boundingBox = box, scale_x = x, scale_y = y, scale_z = z,
                     positions = points, genomicCoords = coords,
                     interval = chrInterval\<rparr>)"

subsection \<open>The service\<close>

text \<open>
  The cache \<^verbatim>\<open>loadedChromosomes\<close> is an object literal used as a dictionary. Reading
  \<^verbatim>\<open>loadedChromosomes[chr]\<close> yields the object's own entry when there is one; otherwise the
  lookup goes on to \<^verbatim>\<open>Object.prototype\<close>, whose members (\<^verbatim>\<open>constructor\<close>, \<^verbatim>\<open>toString\<close>
  and the others listed) are functions or objects; otherwise it yields \<^verbatim>\<open>undefined\<close>.
  Of these values only \<^verbatim>\<open>undefined\<close> is falsy.
\<close>

datatype js_value = Undefined | Details ref | ObjectPrototypeMember string

definition Object_prototype_keys :: "string list" where
  "Object_prototype_keys =
     [''constructor'', ''__defineGetter__'', ''__defineSetter__'', ''hasOwnProperty'',
      ''__lookupGetter__'', ''__lookupSetter__'', ''isPrototypeOf'',
      ''propertyIsEnumerable'', ''toString'', ''valueOf'', ''__proto__'',
      ''toLocaleString'']"

definition get_property :: "(string \<rightharpoonup> ref) \<Rightarrow> string \<Rightarrow> js_value" where
  "get_property own key =
     (case own key of
        Some r \<Rightarrow> Details r
      | None \<Rightarrow> if key \<in> set Object_prototype_keys then ObjectPrototypeMember key else Undefined)"

fun truthy :: "js_value \<Rightarrow> bool" where
  "truthy Undefined = False"
| "truthy (Details r) = True"
| "truthy (ObjectPrototypeMember key) = True"

text \<open>
  The state is the cache and the heap of the details objects it refers to. A method
  returns its result, a value or the exception raised, and the state after the call.
\<close>

record GenomeModelService =
  details_heap :: "ChromosomeModelDetails heap"
  loadedChromosomes :: "string \<rightharpoonup> ref"

definition new_GenomeModelService :: GenomeModelService where
  "new_GenomeModelService = \<lparr>details_heap = [], loadedChromosomes = Map.empty\<rparr>"

definition hasChromosome :: "GenomeModelService \<Rightarrow> string \<Rightarrow> bool" where
  "hasChromosome s chr = truthy (get_property (loadedChromosomes s) chr)"

definition loadChromosome ::
  "GenomeModelService \<Rightarrow> string \<Rightarrow> (js_error + js_value) \<times> GenomeModelService" where
  "loadChromosome s chr =
     (let details = get_property (loadedChromosomes s) chr
      in if truthy details then (Inr details, s)
         else (Inl (Error (''chromosome '' @ chr @ '' not loaded'')), s))"

text \<open>
  \<^verbatim>\<open>loadChromosomeAsync\<close> is an asynchronous function: it runs in two parts, and other
  code, other calls of the function among it, can run between them.

  The first part, lines 32 to 37, runs when the function is called. It looks the id up
  and, when the lookup is truthy, returns it; otherwise it asks for the document and the
  call waits for the answer. The first part reads the state and does not change it.

  The second part, lines 38 to 87, runs when the answer has come: the parsed document, or
  the reason why \<^verbatim>\<open>fetch\<close> or \<^verbatim>\<open>response.json()\<close> was rejected. It is given the state as
  it is at that moment. It builds the details, stores a new object under the id without
  looking the id up again, and returns the entry. Between the two awaits of lines 37 and
  38 the function touches no state, so they are one wait here. The assignment is reached
  only by a call whose lookup in the first part was \<^verbatim>\<open>undefined\<close>, that is, for an id that
  is not a member name of \<^verbatim>\<open>Object.prototype\<close>, so it creates an entry of the object's
  own.
\<close>

datatype call_progress = Returned js_value | AwaitingFetch string

definition loadChromosomeAsync_start :: "GenomeModelService \<Rightarrow> string \<Rightarrow> call_progress" where
  "loadChromosomeAsync_start s chr =
     (let details = get_property (loadedChromosomes s) chr
      in if truthy details then Returned details
         else AwaitingFetch (''/models/'' @ chr @ ''.json''))"

definition loadChromosomeAsync_resume ::
  "GenomeModelService \<Rightarrow> string \<Rightarrow> js_error + chromosome_json
     \<Rightarrow> (js_error + js_value) \<times> GenomeModelService" where
  "loadChromosomeAsync_resume s chr response =
     (case response of
        Inl e \<Rightarrow> (Inl e, s)
      | Inr data \<Rightarrow>
          (case buildDetails data of
             Inl e \<Rightarrow> (Inl e, s)
           | Inr built \<Rightarrow>
               (case alloc (details_heap s) built of
                  (h', r) \<Rightarrow>
                    let s' = s\<lparr>details_heap := h',
                               loadedChromosomes := (loadedChromosomes s)(chr \<mapsto> r)\<rparr>
                    in (Inr (get_property (loadedChromosomes s') chr), s'))))"

text \<open>
  A call that nothing comes between: the second part runs in the state the first part
  saw, with the answer of the server.
\<close>

definition loadChromosomeAsync ::
  "(string \<Rightarrow> js_error + chromosome_json) \<Rightarrow> GenomeModelService \<Rightarrow> string
     \<Rightarrow> (js_error + js_value) \<times> GenomeModelService" where
  "loadChromosomeAsync fetch s chr =
     (case loadChromosomeAsync_start s chr of
        Returned details \<Rightarrow> (Inr details, s)
      | AwaitingFetch url \<Rightarrow> loadChromosomeAsync_resume s chr (fetch url))"

text \<open>
  The state changes only in the second part of a call. Whatever calls are made and however
  they overlap, the state of the service is therefore the result of the second parts that
  have run, in the order in which they ran: a list of ids, each with the answer that its
  call got. (Only a call that waits has a second part; the list may hold any ids, which
  covers these.)
\<close>

fun run_resumptions ::
  "(string \<times> (js_error + chromosome_json)) list \<Rightarrow> GenomeModelService \<Rightarrow> GenomeModelService" where
  "run_resumptions [] s = s"
| "run_resumptions ((chr, response) # rest) s =
     run_resumptions rest (snd (loadChromosomeAsync_resume s chr response))"

subsection \<open>Notions for stating the properties\<close>

text \<open>
  A call for an id returns a value and leaves a state in one of two ways: at once, from
  its first part, in the state it was called in; or from its second part, run on the state
  and the answer given.
\<close>

definition call_returns ::
  "GenomeModelService \<Rightarrow> string \<Rightarrow> js_error + chromosome_json \<Rightarrow> js_value
     \<Rightarrow> GenomeModelService \<Rightarrow> bool" where
  "call_returns s chr response v s' \<longleftrightarrow>
     loadChromosomeAsync_start s chr = Returned v \<and> s' = s \<or>
     loadChromosomeAsync_resume s chr response = (Inr v, s')"

text \<open>An answer with which the second part of a call stores an object.\<close>

definition stores :: "js_error + chromosome_json \<Rightarrow> bool" where
  "stores response =
     (case response of
        Inl e \<Rightarrow> False
      | Inr data \<Rightarrow> (case buildDetails data of Inl e \<Rightarrow> False | Inr built \<Rightarrow> True))"

text \<open>
  No second part in a list of them stores an object under the id: each is for another id,
  or its answer is one with which nothing is stored.
\<close>

definition no_store_for ::
  "string \<Rightarrow> (string \<times> (js_error + chromosome_json)) list \<Rightarrow> bool" where
  "no_store_for chr later =
     list_all (\<lambda>completion. fst completion \<noteq> chr \<or> \<not> stores (snd completion)) later"

text \<open>
  The three axes, to speak of the coordinates and scales one axis at a time: the
  coordinate of a vector and of a position given by finite numbers, the scale stored for
  an axis, the length of a box along an axis and the largest of the three lengths.
\<close>

datatype axis = X_axis | Y_axis | Z_axis

fun coordinate :: "axis \<Rightarrow> Vector3 \<Rightarrow> js_number" where
  "coordinate X_axis v = vec_x v"
| "coordinate Y_axis v = vec_y v"
| "coordinate Z_axis v = vec_z v"

fun fetched_coordinate :: "axis \<Rightarrow> real list \<Rightarrow> real" where
  "fetched_coordinate X_axis pos = (case pos of a # rest \<Rightarrow> a | _ \<Rightarrow> 0)"
| "fetched_coordinate Y_axis pos = (case pos of a # b # rest \<Rightarrow> b | _ \<Rightarrow> 0)"
| "fetched_coordinate Z_axis pos = (case pos of a # b # c # rest \<Rightarrow> c | _ \<Rightarrow> 0)"

fun scale_of :: "axis \<Rightarrow> ChromosomeModelDetails \<Rightarrow> ScaleLinear" where
  "scale_of X_axis d = scale_x d"
| "scale_of Y_axis d = scale_y d"
| "scale_of Z_axis d = scale_z d"

definition axis_length :: "Box3 \<Rightarrow> axis \<Rightarrow> js_number" where
  "axis_length box a = js_minus (coordinate a (box_max box)) (coordinate a (box_min box))"

definition largest_axis_length :: "Box3 \<Rightarrow> js_number" where
  "largest_axis_length box =
     math_max (math_max (axis_length box X_axis) (axis_length box Y_axis)) (axis_length box Z_axis)"

text \<open>
  Every entry of the cache refers to an object of the heap that was built from some
  document. The property holds of a new service and every second part of a call keeps it.
\<close>

definition cache_inv :: "GenomeModelService \<Rightarrow> bool" where
  "cache_inv s \<longleftrightarrow>
     (\<forall>chr r. loadedChromosomes s chr = Some r \<longrightarrow>
        r < length (details_heap s) \<and> (\<exists>data. buildDetails data = Inr (details_heap s ! r)))"

subsection \<open>Examples\<close>

text \<open>
  A server for the examples. It answers for \<^verbatim>\<open>chr1\<close> with two positions that span the box
  from (0, 0, 0) to (10, 5, 2), for \<^verbatim>\<open>chr2\<close> with a single position, for \<^verbatim>\<open>chr3\<close> with two
  positions whose first coordinates are so far apart that their difference is beyond the
  range of the doubles, and rejects every other request.
\<close>

definition chr1_json :: chromosome_json where
  "chr1_json =
     \<lparr>json_genomicCoords = [(Fin 0, Fin 100), (Fin 100, Fin 250)],
      json_xyzPositions = [[Fin 0, Fin 0, Fin 0], [Fin 10, Fin 5, Fin 2]]\<rparr>"

definition chr2_json :: chromosome_json where
  "chr2_json =
     \<lparr>json_genomicCoords = [(Fin 5, Fin 20)],
      json_xyzPositions = [[Fin 1, Fin 2, Fin 3]]\<rparr>"

definition ten_to_308 :: real where
  "ten_to_308 = 10 ^ 308"

definition chr3_json :: chromosome_json where
  "chr3_json =
     \<lparr>json_genomicCoords = [(Fin 5, Fin 20)],
      json_xyzPositions = [[Fin (- ten_to_308), Fin 0, Fin 0], [Fin ten_to_308, Fin 1, Fin 1]]\<rparr>"

definition example_server :: "string \<Rightarrow> js_error + chromosome_json" where
  "example_server url =
     (if url = ''/models/chr1.json'' then Inr chr1_json
      else if url = ''/models/chr2.json'' then Inr chr2_json
      else if url = ''/models/chr3.json'' then Inr chr3_json
      else Inl FetchRejected)"

text \<open>The objects that the service is expected to build from the three documents.\<close>

definition chr1_details :: ChromosomeModelDetails where
  "chr1_details =
     \<lparr>boundingBox =
        \<lparr>box_min = \<lparr>vec_x = Fin 0, vec_y = Fin 0, vec_z = Fin 0\<rparr>,
         box_max = \<lparr>vec_x = Fin 10, vec_y = Fin 5, vec_z = Fin 2\<rparr>\<rparr>,
      scale_x = \<lparr>scale_domain = (Fin 0, Fin 10), scale_range = (Fin 0, Fin 1)\<rparr>,
      scale_y = \<lparr>scale_domain = (Fin 0, Fin 5), scale_range = (Fin 0, Fin (1 / 2))\<rparr>,
      scale_z = \<lparr>scale_domain = (Fin 0, Fin 2), scale_range = (Fin 0, Fin (1 / 5))\<rparr>,
      positions =
        [\<lparr>vec_x = Fin 0, vec_y = Fin 0, vec_z = Fin 0\<rparr>,
         \<lparr>vec_x = Fin 10, vec_y = Fin 5, vec_z = Fin 2\<rparr>],
      genomicCoords = [(Fin 0, Fin 100), (Fin 100, Fin 250)],
      interval = \<lparr>interval_chr = ''chr21'', interval_start = Fin 0, interval_end = Fin 250\<rparr>\<rparr>"

definition chr2_details :: ChromosomeModelDetails where
  "chr2_details =
     \<lparr>boundingBox =
        \<lparr>box_min = \<lparr>vec_x = Fin 1, vec_y = Fin 2, vec_z = Fin 3\<rparr>,
         box_max = \<lparr>vec_x = Fin 1, vec_y = Fin 2, vec_z = Fin 3\<rparr>\<rparr>,
      scale_x = \<lparr>scale_domain = (Fin 1, Fin 1), scale_range = (Fin 0, NaN)\<rparr>,
      scale_y = \<lparr>scale_domain = (Fin 2, Fin 2), scale_range = (Fin 0, NaN)\<rparr>,
      scale_z = \<lparr>scale_domain = (Fin 3, Fin 3), scale_range = (Fin 0, NaN)\<rparr>,
      positions = [\<lparr>vec_x = Fin 1, vec_y = Fin 2, vec_z = Fin 3\<rparr>],
      genomicCoords = [(Fin 5, Fin 20)],
      interval = \<lparr>interval_chr = ''chr21'', interval_start = Fin 5, interval_end = Fin 20\<rparr>\<rparr>"

definition chr3_details :: ChromosomeModelDetails where
  "chr3_details =
     \<lparr>boundingBox =
        \<lparr>box_min = \<lparr>vec_x = Fin (- ten_to_308), vec_y = Fin 0, vec_z = Fin 0\<rparr>,
         box_max = \<lparr>vec_x = Fin ten_to_308, vec_y = Fin 1, vec_z = Fin 1\<rparr>\<rparr>,
      scale_x = \<lparr>scale_domain = (Fin (- ten_to_308), Fin ten_to_308), scale_range = (Fin 0, NaN)\<rparr>,
      scale_y = \<lparr>scale_domain = (Fin 0, Fin 1), scale_range = (Fin 0, Fin 0)\<rparr>,
      scale_z = \<lparr>scale_domain = (Fin 0, Fin 1), scale_range = (Fin 0, Fin 0)\<rparr>,
      positions =
        [\<lparr>vec_x = Fin (- ten_to_308), vec_y = Fin 0, vec_z = Fin 0\<rparr>,
         \<lparr>vec_x = Fin ten_to_308, vec_y = Fin 1, vec_z = Fin 1\<rparr>],
      genomicCoords = [(Fin 5, Fin 20)],
      interval = \<lparr>interval_chr = ''chr21'', interval_start = Fin 5, interval_end = Fin 20\<rparr>\<rparr>"

text \<open>
  Two calls for \<^verbatim>\<open>chr1\<close> that overlap: both are made on the new service and wait, then
  the second part of the first call runs, then that of the second call.
\<close>

definition after_first_call :: GenomeModelService where
  "after_first_call =
     snd (loadChromosomeAsync_resume new_GenomeModelService ''chr1''
            (example_server ''/models/chr1.json''))"

definition after_second_call :: GenomeModelService where
  "after_second_call =
     snd (loadChromosomeAsync_resume after_first_call ''chr1''
            (example_server ''/models/chr1.json''))"

section \<open>Theorems\<close>

subsection \<open>HicTrackConfig\<close>

text \<open>
  Claim C10. For every pair of option records, \<^verbatim>\<open>shouldFetchBecauseOptionChange\<close> is
  true exactly when the \<^verbatim>\<open>normalization\<close> fields differ or the \<^verbatim>\<open>binSize\<close> fields
  differ. A change of any other option never triggers a refetch: replacing the other
  options of both records by arbitrary values leaves the answer as it was, and the answer
  is false whenever the two named fields agree.
\<close>

theorem shouldFetch_iff_normalization_or_binSize:
  fixes oldOptions newOptions :: "('n, 'b, 'o) TrackOptions"
  shows "(shouldFetchBecauseOptionChange oldOptions newOptions \<longleftrightarrow>
            normalization oldOptions \<noteq> normalization newOptions \<or>
            binSize oldOptions \<noteq> binSize newOptions)
       \<and> shouldFetchBecauseOptionChange
            (oldOptions\<lparr>otherOptions := a\<rparr>) (newOptions\<lparr>otherOptions := b\<rparr>)
          = shouldFetchBecauseOptionChange oldOptions newOptions
       \<and> shouldFetchBecauseOptionChange oldOptions (oldOptions\<lparr>otherOptions := b\<rparr>) = False"
  by (simp add: shouldFetchBecauseOptionChange_def)

theorem shouldFetch_iff_normalization_or_binSize_witness:
  "shouldFetchBecauseOptionChange
     \<lparr>normalization = ''NONE'', binSize = (0::int), otherOptions = ''blue''\<rparr>
     \<lparr>normalization = ''NONE'', binSize = 5000, otherOptions = ''blue''\<rparr> = True
   \<and> shouldFetchBecauseOptionChange
     \<lparr>normalization = ''NONE'', binSize = (0::int), otherOptions = ''blue''\<rparr>
     \<lparr>normalization = ''NONE'', binSize = 0, otherOptions = ''red''\<rparr> = False"
  using shouldFetch_iff_normalization_or_binSize
      [of "\<lparr>normalization = ''NONE'', binSize = (0::int), otherOptions = ''blue''\<rparr>"
          "\<lparr>normalization = ''NONE'', binSize = 5000, otherOptions = ''blue''\<rparr>" "''blue''" "''blue''"]
    shouldFetch_iff_normalization_or_binSize
      [of "\<lparr>normalization = ''NONE'', binSize = (0::int), otherOptions = ''blue''\<rparr>"
          "\<lparr>normalization = ''NONE'', binSize = (0::int), otherOptions = ''blue''\<rparr>" "''blue''" "''red''"]
  by simp

subsection \<open>TrackContainer\<close>

text \<open>What the handlers compute, written out, and facts about valid references.\<close>

lemma toggleOneTrack_eq:
  "index < length tracks \<Longrightarrow>
   toggleOneTrack h tracks index =
     Inr (h @ [(h ! (tracks ! index))\<lparr>isSelected := \<not> isSelected (h ! (tracks ! index))\<rparr>],
          tracks[index := length h])"
  by (simp add: toggleOneTrack_def TrackModel_clone_def alloc_def Let_def)

lemma valid_refs_nth: "valid_refs h tracks \<Longrightarrow> j < length tracks \<Longrightarrow> tracks ! j < length h"
  by (simp add: valid_refs_def list_all_length)

lemma valid_refs_Cons: "valid_refs h (r # rs) \<longleftrightarrow> r < length h \<and> valid_refs h rs"
  by (simp add: valid_refs_def)

lemma valid_refs_mono: "valid_refs h rs \<Longrightarrow> length h \<le> length h' \<Longrightarrow> valid_refs h' rs"
  by (auto simp: valid_refs_def list_all_iff)

lemma heap_prefix_nth: "take (length h) h' = h \<Longrightarrow> r < length h \<Longrightarrow> h' ! r = h ! r"
  by (metis nth_take)

lemma heap_prefix_trans:
  "take (length h1) h2 = h1 \<Longrightarrow> take (length h) h1 = h \<Longrightarrow> take (length h) h2 = h"
  by (metis min.cobounded2 take_all_iff take_take min.absorb1 length_take linorder_linear min.commute)

lemma deselect_step:
  "isSelected (h ! track) \<Longrightarrow>
   deselectAllTracks h (track # rest) =
     (case deselectAllTracks (h @ [(h ! track)\<lparr>isSelected := False\<rparr>]) rest of
        (h2, rest') \<Rightarrow> (h2, length h # rest'))"
  by (simp add: TrackModel_clone_def alloc_def)

lemma deselect_props:
  "valid_refs h tracks \<Longrightarrow> deselectAllTracks h tracks = (h', ts) \<Longrightarrow>
     length ts = length tracks \<and> length h \<le> length h' \<and> take (length h) h' = h \<and> valid_refs h' ts
     \<and> (\<forall>i < length tracks. \<not> isSelected (h' ! (ts ! i)) \<and> otherFields (h' ! (ts ! i)) = otherFields (h ! (tracks ! i))
          \<and> (\<not> isSelected (h ! (tracks ! i)) \<longrightarrow> ts ! i = tracks ! i))"
proof (induction tracks arbitrary: h h' ts)
  case Nil
  then show ?case by (simp add: valid_refs_def)
next
  case (Cons track rest)
  from Cons.prems(1) have tr: "track < length h" and vr: "valid_refs h rest"
    by (simp_all add: valid_refs_Cons)
  show ?case
  proof (cases "isSelected (h ! track)")
    case True
    define hA where "hA = h @ [(h ! track)\<lparr>isSelected := False\<rparr>]"
    obtain h2 rest' where rec: "deselectAllTracks hA rest = (h2, rest')"
      by (cases "deselectAllTracks hA rest")
    have "deselectAllTracks h (track # rest) = (h2, length h # rest')"
      using rec deselect_step[OF True, of rest] by (simp add: hA_def del: deselectAllTracks.simps)
    then have res: "h' = h2" "ts = length h # rest'"
      using Cons.prems(2) by (simp_all del: deselectAllTracks.simps)
    have vA: "valid_refs hA rest" using vr by (rule valid_refs_mono) (simp add: hA_def)
    note IH = Cons.IH[OF vA rec]
    have pre: "take (length h) hA = h" by (simp add: hA_def)
    have lenA: "length hA = Suc (length h)" by (simp add: hA_def)
    have pre2: "take (length h) h2 = h" using IH pre by (metis heap_prefix_trans)
    have new: "h2 ! length h = (h ! track)\<lparr>isSelected := False\<rparr>"
      using IH heap_prefix_nth[of hA h2 "length h"] by (simp add: hA_def)
    have old: "\<And>i. i < length rest \<Longrightarrow> hA ! (rest ! i) = h ! (rest ! i)"
      using valid_refs_nth[OF vr] by (simp add: hA_def nth_append)
    have elems: "\<forall>i < length (track # rest). \<not> isSelected (h' ! (ts ! i)) \<and> otherFields (h' ! (ts ! i)) = otherFields (h ! ((track # rest) ! i))
          \<and> (\<not> isSelected (h ! ((track # rest) ! i)) \<longrightarrow> ts ! i = (track # rest) ! i)"
    proof (intro allI impI)
      fix i assume "i < length (track # rest)"
      then show "\<not> isSelected (h' ! (ts ! i)) \<and> otherFields (h' ! (ts ! i)) = otherFields (h ! ((track # rest) ! i))
          \<and> (\<not> isSelected (h ! ((track # rest) ! i)) \<longrightarrow> ts ! i = (track # rest) ! i)"
        using IH old new True by (cases i) (simp_all add: res)
    qed
    have "valid_refs h' ts" using IH tr lenA by (simp add: res valid_refs_Cons)
    moreover have "length ts = length (track # rest)" using IH by (simp add: res)
    moreover have "length h \<le> length h'" using IH lenA by (simp add: res)
    moreover have "take (length h) h' = h" using pre2 by (simp add: res)
    ultimately show ?thesis using elems by blast
  next
    case False
    obtain h2 rest' where rec: "deselectAllTracks h rest = (h2, rest')"
      by (cases "deselectAllTracks h rest")
    have res: "h' = h2" "ts = track # rest'"
      using Cons.prems(2) False rec by simp_all
    note IH = Cons.IH[OF vr rec]
    have same: "h2 ! track = h ! track" using IH tr by (metis heap_prefix_nth)
    have elems: "\<forall>i < length (track # rest). \<not> isSelected (h' ! (ts ! i)) \<and> otherFields (h' ! (ts ! i)) = otherFields (h ! ((track # rest) ! i))
          \<and> (\<not> isSelected (h ! ((track # rest) ! i)) \<longrightarrow> ts ! i = (track # rest) ! i)"
    proof (intro allI impI)
      fix i assume "i < length (track # rest)"
      then show "\<not> isSelected (h' ! (ts ! i)) \<and> otherFields (h' ! (ts ! i)) = otherFields (h ! ((track # rest) ! i))
          \<and> (\<not> isSelected (h ! ((track # rest) ! i)) \<longrightarrow> ts ! i = (track # rest) ! i)"
        using IH same False by (cases i) (simp_all add: res)
    qed
    have "valid_refs h' ts" using IH tr by (simp add: res valid_refs_Cons)
    moreover have "length ts = length (track # rest)" using IH by (simp add: res)
    moreover have "length h \<le> length h'" using IH by (simp add: res)
    moreover have "take (length h) h' = h" using IH by (simp add: res)
    ultimately show ?thesis using elems by blast
  qed
qed


lemma toggleOneTrack_twice_eq:
  assumes "i < length tracks"
  shows "toggleOneTrack
           (h @ [(h ! (tracks ! i))\<lparr>isSelected := \<not> isSelected (h ! (tracks ! i))\<rparr>])
           (tracks[i := length h]) i
         = Inr (h @ [(h ! (tracks ! i))\<lparr>isSelected := \<not> isSelected (h ! (tracks ! i))\<rparr>, h ! (tracks ! i)],
                tracks[i := Suc (length h)])"
  using assms by (simp add: toggleOneTrack_eq nth_append)

text \<open>
  Claim C4. For every track collection and every valid index \<open>i\<close>, toggling the selection
  of the track at index \<open>i\<close> with \<^verbatim>\<open>toggleOneTrack\<close> and toggling it again on the result
  succeeds both times and yields a collection whose tracks are equal, value by value and
  in the same order, to those of the original collection.
\<close>

theorem toggle_twice_restores_collection:
  assumes "i < length tracks" and "valid_refs h tracks"
  shows "\<exists>h1 tracks1 h2 tracks2.
           toggleOneTrack h tracks i = Inr (h1, tracks1) \<and>
           toggleOneTrack h1 tracks1 i = Inr (h2, tracks2) \<and>
           track_values h2 tracks2 = track_values h tracks"
proof -
  let ?x = "h ! (tracks ! i)"
  let ?h1 = "h @ [?x\<lparr>isSelected := \<not> isSelected ?x\<rparr>]"
  let ?h2 = "h @ [?x\<lparr>isSelected := \<not> isSelected ?x\<rparr>, ?x]"
  have first: "toggleOneTrack h tracks i = Inr (?h1, tracks[i := length h])"
    using assms(1) by (rule toggleOneTrack_eq)
  have second: "toggleOneTrack ?h1 (tracks[i := length h]) i = Inr (?h2, tracks[i := Suc (length h)])"
    using assms(1) by (rule toggleOneTrack_twice_eq)
  have "track_values ?h2 (tracks[i := Suc (length h)]) = track_values h tracks"
    unfolding track_values_def
  proof (rule nth_equalityI)
    show "length (map ((!) ?h2) (tracks[i := Suc (length h)])) = length (map ((!) h) tracks)"
      by simp
  next
    fix j assume "j < length (map ((!) ?h2) (tracks[i := Suc (length h)]))"
    then have j: "j < length tracks" by simp
    show "map ((!) ?h2) (tracks[i := Suc (length h)]) ! j = map ((!) h) tracks ! j"
    proof (cases "j = i")
      case True
      then show ?thesis using j by (simp add: nth_append)
    next
      case False
      moreover have "tracks ! j < length h" using assms(2) j by (rule valid_refs_nth)
      ultimately show ?thesis using j by (simp add: nth_append)
    qed
  qed
  with first second show ?thesis by blast
qed

theorem toggle_twice_restores_collection_witness:
  "(0::nat) < length [0, 1 :: nat]
   \<and> valid_refs [\<lparr>isSelected = False, otherFields = ''a''\<rparr>, \<lparr>isSelected = False, otherFields = ''b''\<rparr>] [0, 1]
   \<and> (\<exists>h1 tracks1 h2 tracks2.
        toggleOneTrack [\<lparr>isSelected = False, otherFields = ''a''\<rparr>, \<lparr>isSelected = False, otherFields = ''b''\<rparr>] [0, 1] 0
          = Inr (h1, tracks1) \<and>
        toggleOneTrack h1 tracks1 0 = Inr (h2, tracks2) \<and>
        track_values h2 tracks2 =
          [\<lparr>isSelected = False, otherFields = ''a''\<rparr>, \<lparr>isSelected = False, otherFields = ''b''\<rparr>])"
  using toggle_twice_restores_collection
    [of 0 "[0, 1]" "[\<lparr>isSelected = False, otherFields = ''a''\<rparr>, \<lparr>isSelected = False, otherFields = ''b''\<rparr>]"]
  by (simp add: valid_refs_def track_values_def)

text \<open>
  Claim C5. For every track collection and every index \<open>i\<close> of it, a click on track \<open>i\<close>
  with the left button and the control key held passes to \<^verbatim>\<open>onTracksChanged\<close> a collection
  of the same length in which the flag of track \<open>i\<close> is negated and its other fields are
  kept, and in which every other position holds the same object as before, itself
  unchanged; no object that existed before the click is modified. A click without the
  control key, or with another button, calls \<^verbatim>\<open>onTracksChanged\<close> not at all.
\<close>

theorem ctrl_left_click_toggles_one_track:
  assumes "i < length tracks" and "valid_refs h tracks"
  shows "(button event = LEFT \<and> ctrlKey event \<longrightarrow>
            (\<exists>h' nextTracks.
               trackClicked LEFT h tracks event i = Inr (h', Some nextTracks) \<and>
               length nextTracks = length tracks \<and>
               isSelected (h' ! (nextTracks ! i)) = (\<not> isSelected (h ! (tracks ! i))) \<and>
               otherFields (h' ! (nextTracks ! i)) = otherFields (h ! (tracks ! i)) \<and>
               (\<forall>j < length tracks. j \<noteq> i \<longrightarrow>
                  nextTracks ! j = tracks ! j \<and> h' ! (nextTracks ! j) = h ! (tracks ! j)) \<and>
               take (length h) h' = h))
       \<and> (\<not> (button event = LEFT \<and> ctrlKey event) \<longrightarrow>
            trackClicked LEFT h tracks event i = Inr (h, None))"
proof (intro conjI impI)
  assume "button event = LEFT \<and> ctrlKey event"
  let ?x = "h ! (tracks ! i)"
  let ?h' = "h @ [?x\<lparr>isSelected := \<not> isSelected ?x\<rparr>]"
  let ?next = "tracks[i := length h]"
  have "trackClicked LEFT h tracks event i = Inr (?h', Some ?next)"
    using \<open>button event = LEFT \<and> ctrlKey event\<close> assms(1)
    by (simp add: trackClicked_def slice_def toggleOneTrack_eq)
  moreover have "\<forall>j < length tracks. j \<noteq> i \<longrightarrow>
       ?next ! j = tracks ! j \<and> ?h' ! (?next ! j) = h ! (tracks ! j)"
    using valid_refs_nth[OF assms(2)] by (simp add: nth_append)
  moreover have "isSelected (?h' ! (?next ! i)) = (\<not> isSelected ?x)"
    and "otherFields (?h' ! (?next ! i)) = otherFields ?x"
    using assms(1) by simp_all
  ultimately show "\<exists>h' nextTracks.
               trackClicked LEFT h tracks event i = Inr (h', Some nextTracks) \<and>
               length nextTracks = length tracks \<and>
               isSelected (h' ! (nextTracks ! i)) = (\<not> isSelected (h ! (tracks ! i))) \<and>
               otherFields (h' ! (nextTracks ! i)) = otherFields (h ! (tracks ! i)) \<and>
               (\<forall>j < length tracks. j \<noteq> i \<longrightarrow>
                  nextTracks ! j = tracks ! j \<and> h' ! (nextTracks ! j) = h ! (tracks ! j)) \<and>
               take (length h) h' = h"
    by (intro exI[of _ ?h'] exI[of _ ?next]) simp
next
  assume "\<not> (button event = LEFT \<and> ctrlKey event)"
  then show "trackClicked LEFT h tracks event i = Inr (h, None)"
    unfolding trackClicked_def by (simp only: if_False)
qed

theorem ctrl_left_click_toggles_one_track_witness:
  "(0::nat) < length [0, 1 :: nat]
   \<and> valid_refs [\<lparr>isSelected = False, otherFields = ''a''\<rparr>, \<lparr>isSelected = False, otherFields = ''b''\<rparr>] [0, 1]
   \<and> trackClicked 0 [\<lparr>isSelected = False, otherFields = ''a''\<rparr>, \<lparr>isSelected = False, otherFields = ''b''\<rparr>]
        [0, 1] \<lparr>button = 0, ctrlKey = True\<rparr> 0
     = Inr ([\<lparr>isSelected = False, otherFields = ''a''\<rparr>, \<lparr>isSelected = False, otherFields = ''b''\<rparr>,
             \<lparr>isSelected = True, otherFields = ''a''\<rparr>], Some [2, 1])
   \<and> trackClicked 0 [\<lparr>isSelected = False, otherFields = ''a''\<rparr>, \<lparr>isSelected = False, otherFields = ''b''\<rparr>]
        [0, 1] \<lparr>button = 0, ctrlKey = False\<rparr> 0
     = Inr ([\<lparr>isSelected = False, otherFields = ''a''\<rparr>, \<lparr>isSelected = False, otherFields = ''b''\<rparr>], None)"
  using ctrl_left_click_toggles_one_track
    [of 0 "[0, 1]" "[\<lparr>isSelected = False, otherFields = ''a''\<rparr>, \<lparr>isSelected = False, otherFields = ''b''\<rparr>]"
        "\<lparr>button = 0, ctrlKey = True\<rparr>" 0]
    ctrl_left_click_toggles_one_track
    [of 0 "[0, 1]" "[\<lparr>isSelected = False, otherFields = ''a''\<rparr>, \<lparr>isSelected = False, otherFields = ''b''\<rparr>]"
        "\<lparr>button = 0, ctrlKey = False\<rparr>" 0]
  by (simp add: valid_refs_def trackClicked_def slice_def toggleOneTrack_def TrackModel_clone_def alloc_def)

text \<open>
  Claim C6. For every track collection, after a click outside the tracks the collection
  has the same length and order, the flag of every track is false and every other field
  of every track is as before. The handler calls \<^verbatim>\<open>onTracksChanged\<close> with that collection
  when some track was selected; when none was, it calls nothing and the collection at
  hand, which stays, already has every flag false. No object that existed before is
  modified.
\<close>

theorem outside_click_deselects_every_track:
  assumes "valid_refs h tracks" and "handleOutsideClick h tracks event = (h', emitted)"
  shows "length (tracks_after tracks emitted) = length tracks
       \<and> (\<forall>i < length tracks.
             \<not> isSelected (h' ! (tracks_after tracks emitted ! i)) \<and>
             otherFields (h' ! (tracks_after tracks emitted ! i)) = otherFields (h ! (tracks ! i)))
       \<and> take (length h) h' = h
       \<and> (emitted = None) = (\<not> list_ex (\<lambda>track. isSelected (h ! track)) tracks)"
proof (cases "list_ex (\<lambda>track. isSelected (h ! track)) tracks")
  case True
  obtain h2 ts where d: "deselectAllTracks h tracks = (h2, ts)"
    by (cases "deselectAllTracks h tracks")
  with True assms(2) have "h' = h2" "emitted = Some ts"
    by (simp_all add: handleOutsideClick_def)
  with deselect_props[OF assms(1) d] True show ?thesis
    by (simp add: tracks_after_def)
next
  case False
  with assms(2) have "h' = h" "emitted = None"
    by (simp_all add: handleOutsideClick_def)
  moreover have "\<forall>i < length tracks. \<not> isSelected (h ! (tracks ! i))"
    using False by (auto simp: list_ex_iff)
  ultimately show ?thesis using False by (simp add: tracks_after_def)
qed

theorem outside_click_deselects_every_track_witness:
  "valid_refs [\<lparr>isSelected = False, otherFields = ''a''\<rparr>, \<lparr>isSelected = False, otherFields = ''b''\<rparr>,
               \<lparr>isSelected = True, otherFields = ''a''\<rparr>] [2, 1]
   \<and> handleOutsideClick [\<lparr>isSelected = False, otherFields = ''a''\<rparr>, \<lparr>isSelected = False, otherFields = ''b''\<rparr>,
               \<lparr>isSelected = True, otherFields = ''a''\<rparr>] [2, 1] \<lparr>button = 0, ctrlKey = False\<rparr>
     = ([\<lparr>isSelected = False, otherFields = ''a''\<rparr>, \<lparr>isSelected = False, otherFields = ''b''\<rparr>,
         \<lparr>isSelected = True, otherFields = ''a''\<rparr>, \<lparr>isSelected = False, otherFields = ''a''\<rparr>], Some [3, 1])
   \<and> length (tracks_after [2, 1] (Some [3, 1])) = length [2, 1 :: nat]"
  using outside_click_deselects_every_track
    [of "[\<lparr>isSelected = False, otherFields = ''a''\<rparr>, \<lparr>isSelected = False, otherFields = ''b''\<rparr>,
               \<lparr>isSelected = True, otherFields = ''a''\<rparr>]" "[2, 1]" "\<lparr>button = 0, ctrlKey = False\<rparr>"
        "[\<lparr>isSelected = False, otherFields = ''a''\<rparr>, \<lparr>isSelected = False, otherFields = ''b''\<rparr>,
         \<lparr>isSelected = True, otherFields = ''a''\<rparr>, \<lparr>isSelected = False, otherFields = ''a''\<rparr>]" "Some [3, 1]"]
  by (simp add: valid_refs_def handleOutsideClick_def TrackModel_clone_def alloc_def tracks_after_def)

subsection \<open>Numbers\<close>

text \<open>Results far inside the range of the doubles are finite; a number is its own quotient once.\<close>

lemma double_overflow_large: "1000000 < double_overflow"
  by (simp add: double_overflow_def)

lemma finite_result_small: "\<bar>x\<bar> \<le> 1000000 \<Longrightarrow> finite_result x = Fin x"
  using double_overflow_large by (simp add: finite_result_def abs_le_iff)

lemma js_divide_self: "l \<noteq> 0 \<Longrightarrow> js_divide (Fin l) (Fin l) = Fin 1"
  using double_overflow_large by (simp add: finite_result_def)

lemma math_max_is_one_of: "math_max a b = a \<or> math_max a b = b"
  by (cases a; cases b) (simp_all add: max_def)

subsection \<open>GenomeNavigator\<close>








subsection \<open>GenomeModelService: the two parts of a call\<close>

text \<open>How the first part and the second part of a call can go.\<close>

lemma start_cases:
  "loadChromosomeAsync_start s chr =
     (if truthy (get_property (loadedChromosomes s) chr)
      then Returned (get_property (loadedChromosomes s) chr)
      else AwaitingFetch (''/models/'' @ chr @ ''.json''))"
  by (simp add: loadChromosomeAsync_start_def)

lemma start_Returned:
  "loadChromosomeAsync_start s chr = Returned v \<longleftrightarrow>
     get_property (loadedChromosomes s) chr = v \<and> truthy v"
  by (auto simp: start_cases)

lemma resume_rejected: "loadChromosomeAsync_resume s chr (Inl e) = (Inl e, s)"
  by (simp add: loadChromosomeAsync_resume_def)

lemma resume_not_built:
  "buildDetails data = Inl e \<Longrightarrow> loadChromosomeAsync_resume s chr (Inr data) = (Inl e, s)"
  by (simp add: loadChromosomeAsync_resume_def)

lemma resume_built:
  "buildDetails data = Inr built \<Longrightarrow>
   loadChromosomeAsync_resume s chr (Inr data) =
     (Inr (Details (length (details_heap s))),
      s\<lparr>details_heap := details_heap s @ [built],
        loadedChromosomes := (loadedChromosomes s)(chr \<mapsto> length (details_heap s))\<rparr>)"
  by (simp add: loadChromosomeAsync_resume_def alloc_def get_property_def)

lemma resume_cases:
  obtains (failed) e where "\<not> stores response" "loadChromosomeAsync_resume s chr response = (Inl e, s)"
  | (stored) data built where "stores response" "response = Inr data" "buildDetails data = Inr built"
      "loadChromosomeAsync_resume s chr response =
         (Inr (Details (length (details_heap s))),
          s\<lparr>details_heap := details_heap s @ [built],
            loadedChromosomes := (loadedChromosomes s)(chr \<mapsto> length (details_heap s))\<rparr>)"
proof (cases response)
  case (Inl e)
  then show ?thesis using failed[of e] by (simp add: stores_def resume_rejected)
next
  case (Inr data)
  show ?thesis
  proof (cases "buildDetails data")
    case (Inl e)
    then show ?thesis using failed[of e] Inr by (simp add: stores_def resume_not_built)
  next
    case built: (Inr built)
    then show ?thesis using stored[of data built] Inr by (simp add: stores_def resume_built)
  qed
qed

lemma resume_success:
  assumes "loadChromosomeAsync_resume s chr response = (Inr v, s')"
  obtains data built where "response = Inr data" "buildDetails data = Inr built"
    "v = Details (length (details_heap s))"
    "s' = s\<lparr>details_heap := details_heap s @ [built],
            loadedChromosomes := (loadedChromosomes s)(chr \<mapsto> length (details_heap s))\<rparr>"
  using assms by (cases rule: resume_cases[of response s chr]) auto

text \<open>
  The second part of a call for another id, or one that stores nothing, leaves the lookup
  of an id as it was; whatever second parts run, a truthy lookup stays truthy and the
  objects of the heap stay where they are.
\<close>

lemma resume_keeps_lookup:
  assumes "c \<noteq> key \<or> \<not> stores response"
  shows "get_property (loadedChromosomes (snd (loadChromosomeAsync_resume s c response))) key
         = get_property (loadedChromosomes s) key"
  using assms by (cases rule: resume_cases[of response s c]) (auto simp: get_property_def)

lemma run_keeps_lookup:
  "no_store_for key later \<Longrightarrow>
   get_property (loadedChromosomes (run_resumptions later s)) key
     = get_property (loadedChromosomes s) key"
proof (induction later arbitrary: s)
  case Nil
  then show ?case by simp
next
  case (Cons completion later)
  obtain c response where completion: "completion = (c, response)" by (cases completion)
  then have "c \<noteq> key \<or> \<not> stores response" and rest: "no_store_for key later"
    using Cons.prems by (simp_all add: no_store_for_def)
  from resume_keeps_lookup[OF this(1), of s] Cons.IH[OF rest, of "snd (loadChromosomeAsync_resume s c response)"]
  show ?case by (simp add: completion)
qed

lemma resume_keeps_truthy:
  assumes "truthy (get_property (loadedChromosomes s) key)"
  shows "truthy (get_property (loadedChromosomes (snd (loadChromosomeAsync_resume s c response))) key)"
  using assms by (cases rule: resume_cases[of response s c]) (auto simp: get_property_def)

lemma run_keeps_truthy:
  "truthy (get_property (loadedChromosomes s) key) \<Longrightarrow>
   truthy (get_property (loadedChromosomes (run_resumptions later s)) key)"
proof (induction later arbitrary: s)
  case Nil
  then show ?case by simp
next
  case (Cons completion later)
  obtain c response where completion: "completion = (c, response)" by (cases completion)
  from Cons.IH[OF resume_keeps_truthy[OF Cons.prems, of c response]]
  show ?case by (simp add: completion)
qed

lemma resume_extends_heap:
  "\<exists>added. details_heap (snd (loadChromosomeAsync_resume s c response)) = details_heap s @ added"
  by (cases rule: resume_cases[of response s c]) simp_all

lemma run_extends_heap:
  "\<exists>added. details_heap (run_resumptions later s) = details_heap s @ added"
proof (induction later arbitrary: s)
  case Nil
  then show ?case by simp
next
  case (Cons completion later)
  obtain c response where completion: "completion = (c, response)" by (cases completion)
  obtain a1 where a1: "details_heap (snd (loadChromosomeAsync_resume s c response)) = details_heap s @ a1"
    using resume_extends_heap by blast
  obtain a2 where "details_heap (run_resumptions later (snd (loadChromosomeAsync_resume s c response)))
      = details_heap (snd (loadChromosomeAsync_resume s c response)) @ a2"
    using Cons.IH by blast
  then show ?case using a1 by (simp add: completion)
qed

text \<open>What a call returns is the lookup of its id in the state it leaves, and is truthy.\<close>

lemma call_returns_lookup:
  assumes "call_returns s chr response v s'"
  shows "get_property (loadedChromosomes s') chr = v \<and> truthy v"
proof -
  from assms consider
    (first) "loadChromosomeAsync_start s chr = Returned v" "s' = s"
    | (second) "loadChromosomeAsync_resume s chr response = (Inr v, s')"
    by (auto simp: call_returns_def)
  then show ?thesis
  proof cases
    case first
    then show ?thesis by (simp add: start_Returned)
  next
    case second
    then show ?thesis by (rule resume_success) (simp add: get_property_def)
  qed
qed

lemma loadChromosome_truthy:
  "truthy (get_property (loadedChromosomes s) chr) \<Longrightarrow>
   loadChromosome s chr = (Inr (get_property (loadedChromosomes s) chr), s)"
  by (simp add: loadChromosome_def)

text \<open>A call that nothing comes between.\<close>

lemma loadChromosomeAsync_hit:
  "truthy (get_property (loadedChromosomes s) chr) \<Longrightarrow>
   loadChromosomeAsync fetch s chr = (Inr (get_property (loadedChromosomes s) chr), s)"
  by (simp add: loadChromosomeAsync_def start_cases)

lemma loadChromosomeAsync_miss:
  "\<not> truthy (get_property (loadedChromosomes s) chr) \<Longrightarrow>
   loadChromosomeAsync fetch s chr
     = loadChromosomeAsync_resume s chr (fetch (''/models/'' @ chr @ ''.json''))"
  by (simp add: loadChromosomeAsync_def start_cases)

lemma loadChromosomeAsync_returns:
  "loadChromosomeAsync fetch s chr = (Inr v, s') \<Longrightarrow>
   call_returns s chr (fetch (''/models/'' @ chr @ ''.json'')) v s'"
  by (cases "truthy (get_property (loadedChromosomes s) chr)")
     (auto simp: call_returns_def loadChromosomeAsync_hit loadChromosomeAsync_miss start_cases)

text \<open>The cache refers to objects built from documents.\<close>

lemma cache_inv_new: "cache_inv new_GenomeModelService"
  by (simp add: cache_inv_def new_GenomeModelService_def)

lemma cache_inv_resume:
  assumes "cache_inv s"
  shows "cache_inv (snd (loadChromosomeAsync_resume s chr response))"
proof (cases rule: resume_cases[of response s chr])
  case (failed e)
  then show ?thesis using assms by simp
next
  case (stored data built)
  show ?thesis
    unfolding cache_inv_def
  proof (intro allI impI)
    fix c r
    assume "loadedChromosomes (snd (loadChromosomeAsync_resume s chr response)) c = Some r"
    then have look: "((loadedChromosomes s)(chr \<mapsto> length (details_heap s))) c = Some r"
      using stored(4) by simp
    have heap: "details_heap (snd (loadChromosomeAsync_resume s chr response)) = details_heap s @ [built]"
      using stored(4) by simp
    show "r < length (details_heap (snd (loadChromosomeAsync_resume s chr response))) \<and>
          (\<exists>data. buildDetails data = Inr (details_heap (snd (loadChromosomeAsync_resume s chr response)) ! r))"
    proof (cases "c = chr")
      case True
      then have "r = length (details_heap s)" using look by simp
      then show ?thesis using heap stored(3) by auto
    next
      case False
      then have "loadedChromosomes s c = Some r" using look by simp
      then have "r < length (details_heap s)" "\<exists>data. buildDetails data = Inr (details_heap s ! r)"
        using assms by (auto simp: cache_inv_def)
      then show ?thesis using heap by (simp add: nth_append)
    qed
  qed
qed

lemma cache_inv_run: "cache_inv s \<Longrightarrow> cache_inv (run_resumptions completions s)"
proof (induction completions arbitrary: s)
  case Nil
  then show ?case by simp
next
  case (Cons completion completions)
  obtain chr response where "completion = (chr, response)" by (cases completion)
  then show ?case using Cons.IH[OF cache_inv_resume[OF Cons.prems]] by simp
qed

lemma get_property_Details:
  "get_property own key = Details r \<longleftrightarrow> own key = Some r"
  by (auto simp: get_property_def split: option.splits)

text \<open>
  The details that a call returns are in the cache under the id and were built from a
  document: the answer of this call when they come from its second part.
\<close>

lemma call_returns_built:
  assumes inv: "cache_inv s" and ret: "call_returns s chr response (Details r) s'"
  shows "loadedChromosomes s' chr = Some r
       \<and> (\<exists>data. buildDetails data = Inr (details_heap s' ! r)
            \<and> (loadChromosomeAsync_resume s chr response = (Inr (Details r), s') \<longrightarrow>
                 response = Inr data))"
proof -
  have stored: "loadedChromosomes s' chr = Some r"
    using call_returns_lookup[OF ret] by (simp add: get_property_Details)
  show ?thesis
  proof (cases "loadChromosomeAsync_resume s chr response = (Inr (Details r), s')")
    case True
    then show ?thesis
    proof (rule resume_success)
      fix data built
      assume "response = Inr data" "buildDetails data = Inr built"
        "Details r = Details (length (details_heap s))"
        "s' = s\<lparr>details_heap := details_heap s @ [built],
            loadedChromosomes := (loadedChromosomes s)(chr \<mapsto> length (details_heap s))\<rparr>"
      then have "buildDetails data = Inr (details_heap s' ! r)" "response = Inr data"
        by simp_all
      then show ?thesis using stored by blast
    qed
  next
    case False
    then have "s' = s" using ret by (simp add: call_returns_def)
    then obtain data where "buildDetails data = Inr (details_heap s' ! r)"
      using inv stored by (auto simp: cache_inv_def)
    then show ?thesis using stored False by blast
  qed
qed

text \<open>With a document that has genomic coordinates the second part of a call stores.\<close>

lemma buildDetails_total:
  "json_genomicCoords data \<noteq> [] \<Longrightarrow> \<exists>built. buildDetails data = Inr built"
  by (cases "json_genomicCoords data") (simp_all add: buildDetails_def Let_def)

lemma resume_progress:
  assumes "json_genomicCoords data \<noteq> []"
  shows "\<exists>built. buildDetails data = Inr built
           \<and> loadChromosomeAsync_resume s chr (Inr data) =
               (Inr (Details (length (details_heap s))),
                s\<lparr>details_heap := details_heap s @ [built],
                  loadedChromosomes := (loadedChromosomes s)(chr \<mapsto> length (details_heap s))\<rparr>)"
  using buildDetails_total[OF assms] resume_built by blast

subsection \<open>GenomeModelService: the details built from a document\<close>

lemma buildDetails_interval:
  assumes "buildDetails data = Inr d"
  shows "genomicCoords d = json_genomicCoords data \<and> genomicCoords d \<noteq> []
       \<and> interval d = \<lparr>interval_chr = ''chr21'',
                         interval_start = fst (hd (genomicCoords d)),
                         interval_end = snd (last (genomicCoords d))\<rparr>"
  using assms by (cases "json_genomicCoords data") (auto simp: buildDetails_def Let_def)

lemma buildDetails_scales:
  assumes "buildDetails data = Inr d"
  shows "positions d = map new_Vector3 (json_xyzPositions data)"
    and "boundingBox d = fold (\<lambda>pos b. expandByPoint b pos) (positions d) new_Box3"
    and "scale_domain (scale_of a d)
           = (coordinate a (box_min (boundingBox d)), coordinate a (box_max (boundingBox d)))"
    and "scale_range (scale_of a d)
           = (Fin 0, js_divide (axis_length (boundingBox d) a) (largest_axis_length (boundingBox d)))"
  using assms
  by (cases "json_genomicCoords data"; cases a;
      auto simp: buildDetails_def Let_def axis_length_def largest_axis_length_def scaleLinear_def)+

lemma coordinate_new_Vector3:
  "coordinate a (new_Vector3 (map Fin pos)) = Fin (fetched_coordinate a pos)"
  by (cases a; cases "map Fin pos" rule: new_Vector3.cases) auto

lemma coordinate_expand_min:
  "coordinate a (box_min (expandByPoint b p)) = math_min (coordinate a (box_min b)) (coordinate a p)"
  by (cases a) (simp_all add: expandByPoint_def)

lemma coordinate_expand_max:
  "coordinate a (box_max (expandByPoint b p)) = math_max (coordinate a (box_max b)) (coordinate a p)"
  by (cases a) (simp_all add: expandByPoint_def)

lemma Min_insert_min:
  fixes m :: real
  assumes "finite S"
  shows "Min (insert (min m x) S) = Min (insert m (insert x S))"
  using assms by (cases "S = {}") (simp_all add: min.assoc)

lemma Max_insert_max:
  fixes m :: real
  assumes "finite S"
  shows "Max (insert (max m x) S) = Max (insert m (insert x S))"
  using assms by (cases "S = {}") (simp_all add: max.assoc)

lemma fold_expand_min:
  "coordinate a (box_min b) = Fin m \<Longrightarrow>
   coordinate a (box_min (fold (\<lambda>pos b. expandByPoint b pos) (map new_Vector3 (map (map Fin) ps)) b))
     = Fin (Min (insert m (fetched_coordinate a ` set ps)))"
proof (induction ps arbitrary: b m)
  case Nil
  then show ?case by simp
next
  case (Cons p ps)
  have "coordinate a (box_min (expandByPoint b (new_Vector3 (map Fin p))))
          = Fin (min m (fetched_coordinate a p))"
    using Cons.prems by (simp add: coordinate_expand_min coordinate_new_Vector3)
  from Cons.IH[OF this] show ?case
    by (simp add: Min_insert_min)
qed

lemma fold_expand_max:
  "coordinate a (box_max b) = Fin m \<Longrightarrow>
   coordinate a (box_max (fold (\<lambda>pos b. expandByPoint b pos) (map new_Vector3 (map (map Fin) ps)) b))
     = Fin (Max (insert m (fetched_coordinate a ` set ps)))"
proof (induction ps arbitrary: b m)
  case Nil
  then show ?case by simp
next
  case (Cons p ps)
  have "coordinate a (box_max (expandByPoint b (new_Vector3 (map Fin p))))
          = Fin (max m (fetched_coordinate a p))"
    using Cons.prems by (simp add: coordinate_expand_max coordinate_new_Vector3)
  from Cons.IH[OF this] show ?case
    by (simp add: Max_insert_max)
qed

text \<open>
  For positions given by finite numbers, at least one of them, the box has on every axis
  the least and the greatest coordinate of the positions.
\<close>

lemma bounding_box_is_min_max:
  assumes "ps \<noteq> []"
  shows "coordinate a (box_min (fold (\<lambda>pos b. expandByPoint b pos)
                                   (map new_Vector3 (map (map Fin) ps)) new_Box3))
           = Fin (Min (fetched_coordinate a ` set ps))"
    and "coordinate a (box_max (fold (\<lambda>pos b. expandByPoint b pos)
                                   (map new_Vector3 (map (map Fin) ps)) new_Box3))
           = Fin (Max (fetched_coordinate a ` set ps))"
proof -
  obtain p rest where ps: "ps = p # rest" using assms by (cases ps) auto
  have lo: "coordinate a (box_min (expandByPoint new_Box3 (new_Vector3 (map Fin p))))
              = Fin (fetched_coordinate a p)"
    using coordinate_new_Vector3[of a p] by (cases a) (simp_all add: expandByPoint_def new_Box3_def)
  have hi: "coordinate a (box_max (expandByPoint new_Box3 (new_Vector3 (map Fin p))))
              = Fin (fetched_coordinate a p)"
    using coordinate_new_Vector3[of a p] by (cases a) (simp_all add: expandByPoint_def new_Box3_def)
  show "coordinate a (box_min (fold (\<lambda>pos b. expandByPoint b pos)
                                   (map new_Vector3 (map (map Fin) ps)) new_Box3))
           = Fin (Min (fetched_coordinate a ` set ps))"
    using fold_expand_min[OF lo, of rest] by (simp add: ps)
  show "coordinate a (box_max (fold (\<lambda>pos b. expandByPoint b pos)
                                   (map new_Vector3 (map (map Fin) ps)) new_Box3))
           = Fin (Max (fetched_coordinate a ` set ps))"
    using fold_expand_max[OF hi, of rest] by (simp add: ps)
qed

text \<open>The largest of the three lengths is the length of one of the axes.\<close>

lemma largest_is_some_axis: "\<exists>a. axis_length box a = largest_axis_length box"
proof -
  let ?x = "axis_length box X_axis" and ?y = "axis_length box Y_axis" and ?z = "axis_length box Z_axis"
  have "math_max (math_max ?x ?y) ?z = ?x \<or> math_max (math_max ?x ?y) ?z = ?y
        \<or> math_max (math_max ?x ?y) ?z = ?z"
    using math_max_is_one_of[of "math_max ?x ?y" ?z] math_max_is_one_of[of ?x ?y] by auto
  then show ?thesis unfolding largest_axis_length_def by metis
qed

subsection \<open>GenomeModelService: the examples\<close>

lemma example_build_chr1: "buildDetails chr1_json = Inr chr1_details"
  by (simp add: buildDetails_def Let_def new_Box3_def expandByPoint_def scaleLinear_def
      chr1_json_def chr1_details_def finite_result_small)

lemma example_build_chr2: "buildDetails chr2_json = Inr chr2_details"
  by (simp add: buildDetails_def Let_def new_Box3_def expandByPoint_def scaleLinear_def
      chr2_json_def chr2_details_def finite_result_small)

lemma ten_to_308_facts:
  "min (- ten_to_308) ten_to_308 = - ten_to_308"
  "max (- ten_to_308) ten_to_308 = ten_to_308"
  "finite_result (2 * ten_to_308) = PosInfinity"
  by (simp_all add: ten_to_308_def finite_result_def double_overflow_def)

lemma example_build_chr3: "buildDetails chr3_json = Inr chr3_details"
  by (simp add: buildDetails_def Let_def new_Box3_def expandByPoint_def scaleLinear_def
      chr3_json_def chr3_details_def finite_result_small ten_to_308_facts)

lemma example_not_cached:
  "\<not> truthy (get_property (loadedChromosomes new_GenomeModelService) ''chr1'')"
  "\<not> truthy (get_property (loadedChromosomes new_GenomeModelService) ''chr2'')"
  "\<not> truthy (get_property (loadedChromosomes new_GenomeModelService) ''chr3'')"
  by (simp_all add: new_GenomeModelService_def get_property_def Object_prototype_keys_def)

lemma example_load_chr1:
  "loadChromosomeAsync example_server new_GenomeModelService ''chr1''
     = (Inr (Details 0),
        \<lparr>details_heap = [chr1_details], loadedChromosomes = [''chr1'' \<mapsto> 0]\<rparr>)"
  by (subst loadChromosomeAsync_miss[OF example_not_cached(1)])
     (simp add: example_server_def resume_built[OF example_build_chr1] new_GenomeModelService_def)

lemma example_load_chr2:
  "loadChromosomeAsync example_server new_GenomeModelService ''chr2''
     = (Inr (Details 0),
        \<lparr>details_heap = [chr2_details], loadedChromosomes = [''chr2'' \<mapsto> 0]\<rparr>)"
  by (subst loadChromosomeAsync_miss[OF example_not_cached(2)])
     (simp add: example_server_def resume_built[OF example_build_chr2] new_GenomeModelService_def)

lemma example_load_chr3:
  "loadChromosomeAsync example_server new_GenomeModelService ''chr3''
     = (Inr (Details 0),
        \<lparr>details_heap = [chr3_details], loadedChromosomes = [''chr3'' \<mapsto> 0]\<rparr>)"
  by (subst loadChromosomeAsync_miss[OF example_not_cached(3)])
     (simp add: example_server_def resume_built[OF example_build_chr3] new_GenomeModelService_def)

lemma example_after_first_call:
  "after_first_call = \<lparr>details_heap = [chr1_details], loadedChromosomes = [''chr1'' \<mapsto> 0]\<rparr>"
  by (simp add: after_first_call_def example_server_def resume_built[OF example_build_chr1]
      new_GenomeModelService_def)

lemma example_after_second_call:
  "after_second_call
     = \<lparr>details_heap = [chr1_details, chr1_details], loadedChromosomes = [''chr1'' \<mapsto> 1]\<rparr>"
  by (simp add: after_second_call_def example_after_first_call example_server_def
      resume_built[OF example_build_chr1])

subsection \<open>GenomeModelService: ids that name members of Object.prototype\<close>

text \<open>
  Claim C8 says that \<^verbatim>\<open>hasChromosome\<close> is false for an id before any successful fetch of
  it. For the id \<^verbatim>\<open>toString\<close> the method answers true on a new service, before any
  fetch: the lookup in the empty cache object finds the member of \<^verbatim>\<open>Object.prototype\<close>.
\<close>

theorem hasChromosome_of_new_service_at_toString:
  "hasChromosome new_GenomeModelService ''toString'' = True"
  by (simp add: hasChromosome_def new_GenomeModelService_def get_property_def Object_prototype_keys_def)

text \<open>
  Claim C3 says that \<^verbatim>\<open>loadChromosome\<close> fails with an error when no details are cached
  for the id. For the id \<^verbatim>\<open>toString\<close> the method raises nothing on a new service: it
  returns the member of \<^verbatim>\<open>Object.prototype\<close> that the lookup finds, and leaves the state
  as it is.
\<close>

theorem loadChromosome_of_new_service_at_toString:
  "loadChromosome new_GenomeModelService ''toString''
     = (Inr (ObjectPrototypeMember ''toString''), new_GenomeModelService)"
  by (simp add: loadChromosome_def new_GenomeModelService_def get_property_def Object_prototype_keys_def)

text \<open>
  Claim C9 says that a successful \<^verbatim>\<open>loadChromosomeAsync\<close> stores an interval named
  \<^verbatim>\<open>chr21\<close>. For the id \<^verbatim>\<open>toString\<close> the call on a new service succeeds at once, in
  its first part, with the member of \<^verbatim>\<open>Object.prototype\<close> that the lookup finds: nothing
  is fetched, the state stays as it is, and the cache has no entry and no interval for the
  id.
\<close>

theorem loadChromosomeAsync_of_new_service_at_toString:
  "loadChromosomeAsync_start new_GenomeModelService ''toString''
     = Returned (ObjectPrototypeMember ''toString'')
   \<and> loadChromosomeAsync example_server new_GenomeModelService ''toString''
     = (Inr (ObjectPrototypeMember ''toString''), new_GenomeModelService)
   \<and> loadedChromosomes new_GenomeModelService ''toString'' = None"
  by (simp add: loadChromosomeAsync_def loadChromosomeAsync_start_def new_GenomeModelService_def
      get_property_def Object_prototype_keys_def)

text \<open>
  For every id that does not name a member of \<^verbatim>\<open>Object.prototype\<close> the methods do what
  the three claims say. \<^verbatim>\<open>hasChromosome\<close> tells whether the cache has an entry of its own,
  and \<^verbatim>\<open>loadChromosome\<close> returns the entry or raises the error that carries the id and
  leaves the state as it is. \<^verbatim>\<open>hasChromosome\<close> is true once a call for the id has
  returned, whatever second parts of calls run later, and it is false as long as no second
  part has stored under the id, whatever was stored for other ids. The details that a call
  returns, whatever calls were made before and however they overlapped, are in the cache
  under the id and their interval is named \<^verbatim>\<open>chr21\<close>, from the start of the first to the
  end of the last genomic coordinate of the document they were built from; and with a
  document that has genomic coordinates the second part of a call does store them.
\<close>

lemma hasChromosome_own_entry:
  "chr \<notin> set Object_prototype_keys \<Longrightarrow> hasChromosome s chr \<longleftrightarrow> loadedChromosomes s chr \<noteq> None"
  by (auto simp: hasChromosome_def get_property_def split: option.splits)

lemma loadChromosome_own_entry:
  assumes "chr \<notin> set Object_prototype_keys"
  shows "loadChromosome s chr =
           (case loadedChromosomes s chr of
              Some r \<Rightarrow> (Inr (Details r), s)
            | None \<Rightarrow> (Inl (Error (''chromosome '' @ chr @ '' not loaded'')), s))"
  using assms by (simp add: loadChromosome_def get_property_def split: option.splits)

lemma hasChromosome_after_success:
  assumes "call_returns s chr response v s'"
  shows "hasChromosome (run_resumptions later s') chr"
proof -
  from call_returns_lookup[OF assms]
  have "truthy (get_property (loadedChromosomes s') chr)" by simp
  then show ?thesis using run_keeps_truthy[of s' chr later] by (simp add: hasChromosome_def)
qed

lemma hasChromosome_false_before_fetch:
  assumes "chr \<notin> set Object_prototype_keys" and "no_store_for chr completions"
  shows "\<not> hasChromosome (run_resumptions completions new_GenomeModelService) chr"
proof -
  have "get_property (loadedChromosomes (run_resumptions completions new_GenomeModelService)) chr
        = get_property (loadedChromosomes new_GenomeModelService) chr"
    using assms(2) by (rule run_keeps_lookup)
  then show ?thesis using assms(1)
    by (simp add: hasChromosome_def new_GenomeModelService_def get_property_def)
qed

lemma details_interval_is_chr21:
  assumes "call_returns (run_resumptions completions new_GenomeModelService) chr response (Details r) s'"
  shows "loadedChromosomes s' chr = Some r
       \<and> (\<exists>data. buildDetails data = Inr (details_heap s' ! r)
            \<and> (loadChromosomeAsync_resume (run_resumptions completions new_GenomeModelService) chr response
                  = (Inr (Details r), s') \<longrightarrow> response = Inr data)
            \<and> json_genomicCoords data \<noteq> []
            \<and> interval (details_heap s' ! r)
                = \<lparr>interval_chr = ''chr21'',
                   interval_start = fst (hd (json_genomicCoords data)),
                   interval_end = snd (last (json_genomicCoords data))\<rparr>)"
proof -
  have "cache_inv (run_resumptions completions new_GenomeModelService)"
    using cache_inv_new by (rule cache_inv_run)
  from call_returns_built[OF this assms]
  obtain data where stored: "loadedChromosomes s' chr = Some r"
    and built: "buildDetails data = Inr (details_heap s' ! r)"
    and fetched: "loadChromosomeAsync_resume (run_resumptions completions new_GenomeModelService) chr response
                  = (Inr (Details r), s') \<longrightarrow> response = Inr data"
    by blast
  from buildDetails_interval[OF built]
  have "json_genomicCoords data \<noteq> []"
    and "interval (details_heap s' ! r)
               = \<lparr>interval_chr = ''chr21'',
                  interval_start = fst (hd (json_genomicCoords data)),
                  interval_end = snd (last (json_genomicCoords data))\<rparr>"
    by auto
  with stored built fetched show ?thesis by blast
qed

subsection \<open>GenomeModelService: what a call returned and what the cache holds\<close>

text \<open>
  Claim C7, as amended. For every chromosome id, once a call of \<^verbatim>\<open>loadChromosomeAsync\<close>
  for the id has returned a value, from its first part or from its second,
  \<^verbatim>\<open>loadChromosome\<close> for the id returns that very value (a value is a reference, so the
  same object), and so does the first part of any later call for the id, in the state the
  call left and after any second parts of calls that run later, provided none of those
  stores under the same id: that is, provided no call for the id that was already waiting
  for its answer when this one returned stores afterwards. When the value came from the
  call's second part, it is the reference of the object that the call created and stored
  in the cache under the id, and that object is not changed later.
\<close>

theorem loadChromosome_returns_what_async_returned:
  assumes "call_returns s chr response v s'" and "no_store_for chr later"
  shows "loadChromosome (run_resumptions later s') chr = (Inr v, run_resumptions later s')
       \<and> loadChromosomeAsync_start (run_resumptions later s') chr = Returned v
       \<and> (loadChromosomeAsync_resume s chr response = (Inr v, s') \<longrightarrow>
            v = Details (length (details_heap s)) \<and>
            loadedChromosomes s' chr = Some (length (details_heap s)) \<and>
            length (details_heap s) < length (details_heap s') \<and>
            details_heap (run_resumptions later s') ! length (details_heap s)
              = details_heap s' ! length (details_heap s))"
proof -
  from call_returns_lookup[OF assms(1)]
  have look: "get_property (loadedChromosomes s') chr = v" and tr: "truthy v" by simp_all
  have later: "get_property (loadedChromosomes (run_resumptions later s')) chr = v"
    using run_keeps_lookup[OF assms(2), of s'] look by simp
  then have one: "loadChromosome (run_resumptions later s') chr = (Inr v, run_resumptions later s')"
    using loadChromosome_truthy[of "run_resumptions later s'" chr] tr by simp
  have two: "loadChromosomeAsync_start (run_resumptions later s') chr = Returned v"
    using later tr by (simp add: start_Returned)
  have three: "v = Details (length (details_heap s)) \<and>
            loadedChromosomes s' chr = Some (length (details_heap s)) \<and>
            length (details_heap s) < length (details_heap s') \<and>
            details_heap (run_resumptions later s') ! length (details_heap s)
              = details_heap s' ! length (details_heap s)"
    if second: "loadChromosomeAsync_resume s chr response = (Inr v, s')"
    using second
  proof (rule resume_success)
    fix data built
    assume v: "v = Details (length (details_heap s))"
      and s': "s' = s\<lparr>details_heap := details_heap s @ [built],
            loadedChromosomes := (loadedChromosomes s)(chr \<mapsto> length (details_heap s))\<rparr>"
    obtain added where "details_heap (run_resumptions later s') = details_heap s' @ added"
      using run_extends_heap by blast
    then show ?thesis using v s' by (simp add: nth_append)
  qed
  from one two three show ?thesis by blast
qed

theorem loadChromosome_returns_what_async_returned_witness:
  "call_returns new_GenomeModelService ''chr1'' (example_server ''/models/chr1.json'')
     (Details 0) after_first_call
   \<and> no_store_for ''chr1'' [(''chr2'', example_server ''/models/chr2.json'')]
   \<and> fst (loadChromosome
          (run_resumptions [(''chr2'', example_server ''/models/chr2.json'')] after_first_call)
          ''chr1'')
     = Inr (Details 0)
   \<and> details_heap
        (run_resumptions [(''chr2'', example_server ''/models/chr2.json'')] after_first_call) ! 0
     = chr1_details"
  using loadChromosome_returns_what_async_returned
    [of new_GenomeModelService "''chr1''" "example_server ''/models/chr1.json''" "Details 0"
        after_first_call "[(''chr2'', example_server ''/models/chr2.json'')]"]
  by (auto simp: call_returns_def no_store_for_def example_server_def
      resume_built[OF example_build_chr1] example_after_first_call new_GenomeModelService_def)

text \<open>
  The claim as stated fails when two calls for one id overlap. Both calls for \<^verbatim>\<open>chr1\<close>
  are made on the new service, where the first part finds nothing and waits. The second
  part of the first call stores object 0 and returns it: that call has succeeded. Then the
  second part of the other call stores object 1 under the same id. \<^verbatim>\<open>loadChromosome\<close> now
  returns object 1, not the object 0 that the first successful call stored and returned.
\<close>

theorem overlapping_calls_replace_the_object_counterexample:
  "loadChromosomeAsync_start new_GenomeModelService ''chr1'' = AwaitingFetch ''/models/chr1.json''
   \<and> loadChromosomeAsync_resume new_GenomeModelService ''chr1'' (example_server ''/models/chr1.json'')
     = (Inr (Details 0), after_first_call)
   \<and> loadChromosomeAsync_resume after_first_call ''chr1'' (example_server ''/models/chr1.json'')
     = (Inr (Details 1), after_second_call)
   \<and> loadChromosome after_second_call ''chr1'' = (Inr (Details 1), after_second_call)
   \<and> fst (loadChromosome after_second_call ''chr1'') \<noteq> Inr (Details 0)"
  by (simp add: start_cases example_not_cached example_server_def
      resume_built[OF example_build_chr1] example_after_first_call example_after_second_call
      loadChromosome_def get_property_def)
    (simp add: new_GenomeModelService_def Object_prototype_keys_def)

subsection \<open>GenomeModelService: the scales\<close>

text \<open>
  Claim C2, as amended. Whatever calls were made before and however they overlapped, the
  details that a successful \<^verbatim>\<open>loadChromosomeAsync\<close> returns are in the cache under the id
  and were built from a document, the answer of this call when they come from its second
  part. On every axis the stored scale has as its domain the minimum and maximum of the
  bounding box, which for a document whose positions are finite numbers, at least one
  position, are the least and the greatest coordinate of the fetched positions on that
  axis, and as its range zero to the length of the box on that axis divided by the largest
  of the three lengths. The largest length is the length of one of the axes. When it is
  positive and finite, the scale of an axis of that length has the range from 0 to 1. For
  the bounding box from (0, 0, 0) to (10, 5, 2) the ranges are 0 to 1, 0 to 1/2 and 0 to
  1/5. With a document that has genomic coordinates the second part of a call does build
  the details and store them under the id.
\<close>

theorem stored_scales_span_box_and_normalise:
  assumes "call_returns (run_resumptions completions new_GenomeModelService) chr response (Details r) s'"
  shows "(\<exists>data d. d = details_heap s' ! r \<and> buildDetails data = Inr d
           \<and> loadedChromosomes s' chr = Some r
           \<and> (loadChromosomeAsync_resume (run_resumptions completions new_GenomeModelService) chr response
                 = (Inr (Details r), s') \<longrightarrow> response = Inr data)
           \<and> (json_xyzPositions data = map (map Fin) finite_positions \<and> finite_positions \<noteq> [] \<longrightarrow>
                coordinate a (box_min (boundingBox d))
                  = Fin (Min (fetched_coordinate a ` set finite_positions)) \<and>
                coordinate a (box_max (boundingBox d))
                  = Fin (Max (fetched_coordinate a ` set finite_positions)))
           \<and> (\<exists>longest. axis_length (boundingBox d) longest = largest_axis_length (boundingBox d))
           \<and> scale_domain (scale_of a d)
                = (coordinate a (box_min (boundingBox d)), coordinate a (box_max (boundingBox d)))
           \<and> scale_range (scale_of a d)
                = (Fin 0, js_divide (axis_length (boundingBox d) a) (largest_axis_length (boundingBox d)))
           \<and> (0 < l \<and> largest_axis_length (boundingBox d) = Fin l \<and> axis_length (boundingBox d) a = Fin l \<longrightarrow>
                scale_range (scale_of a d) = (Fin 0, Fin 1))
           \<and> (boundingBox d = \<lparr>box_min = \<lparr>vec_x = Fin 0, vec_y = Fin 0, vec_z = Fin 0\<rparr>,
                                box_max = \<lparr>vec_x = Fin 10, vec_y = Fin 5, vec_z = Fin 2\<rparr>\<rparr> \<longrightarrow>
                scale_range (scale_x d) = (Fin 0, Fin 1) \<and>
                scale_range (scale_y d) = (Fin 0, Fin (1 / 2)) \<and>
                scale_range (scale_z d) = (Fin 0, Fin (1 / 5))))
       \<and> (json_genomicCoords document \<noteq> [] \<longrightarrow>
            (\<exists>built. buildDetails document = Inr built
               \<and> loadChromosomeAsync_resume s0 chr (Inr document) =
                   (Inr (Details (length (details_heap s0))),
                    s0\<lparr>details_heap := details_heap s0 @ [built],
                       loadedChromosomes := (loadedChromosomes s0)(chr \<mapsto> length (details_heap s0))\<rparr>)))"
proof -
  have "cache_inv (run_resumptions completions new_GenomeModelService)"
    using cache_inv_new by (rule cache_inv_run)
  from call_returns_built[OF this assms]
  obtain data where stored: "loadedChromosomes s' chr = Some r"
    and built: "buildDetails data = Inr (details_heap s' ! r)"
    and fetched: "loadChromosomeAsync_resume (run_resumptions completions new_GenomeModelService) chr response
                 = (Inr (Details r), s') \<longrightarrow> response = Inr data"
    by blast
  let ?d = "details_heap s' ! r"
  note sc = buildDetails_scales[OF built]
  have box: "boundingBox ?d
      = fold (\<lambda>pos b. expandByPoint b pos) (map new_Vector3 (json_xyzPositions data)) new_Box3"
    using sc(1,2) by simp
  have minmax: "coordinate a (box_min (boundingBox ?d)) = Fin (Min (fetched_coordinate a ` set finite_positions)) \<and>
                coordinate a (box_max (boundingBox ?d)) = Fin (Max (fetched_coordinate a ` set finite_positions))"
    if "json_xyzPositions data = map (map Fin) finite_positions \<and> finite_positions \<noteq> []"
    using that bounding_box_is_min_max[of finite_positions a] box by simp
  have unit: "scale_range (scale_of a ?d) = (Fin 0, Fin 1)"
    if "0 < l \<and> largest_axis_length (boundingBox ?d) = Fin l \<and> axis_length (boundingBox ?d) a = Fin l"
    using that sc(4)[of a] by (simp add: finite_result_small)
  have scenario: "scale_range (scale_x ?d) = (Fin 0, Fin 1) \<and>
                scale_range (scale_y ?d) = (Fin 0, Fin (1 / 2)) \<and>
                scale_range (scale_z ?d) = (Fin 0, Fin (1 / 5))"
    if "boundingBox ?d = \<lparr>box_min = \<lparr>vec_x = Fin 0, vec_y = Fin 0, vec_z = Fin 0\<rparr>,
                                box_max = \<lparr>vec_x = Fin 10, vec_y = Fin 5, vec_z = Fin 2\<rparr>\<rparr>"
    using that sc(4)[of X_axis] sc(4)[of Y_axis] sc(4)[of Z_axis]
    by (simp add: axis_length_def largest_axis_length_def finite_result_small)
  have first: "\<exists>data d. d = details_heap s' ! r \<and> buildDetails data = Inr d
           \<and> loadedChromosomes s' chr = Some r
           \<and> (loadChromosomeAsync_resume (run_resumptions completions new_GenomeModelService) chr response
                 = (Inr (Details r), s') \<longrightarrow> response = Inr data)
           \<and> (json_xyzPositions data = map (map Fin) finite_positions \<and> finite_positions \<noteq> [] \<longrightarrow>
                coordinate a (box_min (boundingBox d))
                  = Fin (Min (fetched_coordinate a ` set finite_positions)) \<and>
                coordinate a (box_max (boundingBox d))
                  = Fin (Max (fetched_coordinate a ` set finite_positions)))
           \<and> (\<exists>longest. axis_length (boundingBox d) longest = largest_axis_length (boundingBox d))
           \<and> scale_domain (scale_of a d)
                = (coordinate a (box_min (boundingBox d)), coordinate a (box_max (boundingBox d)))
           \<and> scale_range (scale_of a d)
                = (Fin 0, js_divide (axis_length (boundingBox d) a) (largest_axis_length (boundingBox d)))
           \<and> (0 < l \<and> largest_axis_length (boundingBox d) = Fin l \<and> axis_length (boundingBox d) a = Fin l \<longrightarrow>
                scale_range (scale_of a d) = (Fin 0, Fin 1))
           \<and> (boundingBox d = \<lparr>box_min = \<lparr>vec_x = Fin 0, vec_y = Fin 0, vec_z = Fin 0\<rparr>,
                                box_max = \<lparr>vec_x = Fin 10, vec_y = Fin 5, vec_z = Fin 2\<rparr>\<rparr> \<longrightarrow>
                scale_range (scale_x d) = (Fin 0, Fin 1) \<and>
                scale_range (scale_y d) = (Fin 0, Fin (1 / 2)) \<and>
                scale_range (scale_z d) = (Fin 0, Fin (1 / 5)))"
    using built stored fetched minmax largest_is_some_axis[of "boundingBox ?d"]
      sc(3)[of a] sc(4)[of a] unit scenario
    by blast
  have second: "json_genomicCoords document \<noteq> [] \<longrightarrow>
            (\<exists>built. buildDetails document = Inr built
               \<and> loadChromosomeAsync_resume s0 chr (Inr document) =
                   (Inr (Details (length (details_heap s0))),
                    s0\<lparr>details_heap := details_heap s0 @ [built],
                       loadedChromosomes := (loadedChromosomes s0)(chr \<mapsto> length (details_heap s0))\<rparr>))"
    using resume_progress by blast
  from first second show ?thesis by (rule conjI)
qed

theorem stored_scales_span_box_and_normalise_witness:
  "call_returns (run_resumptions [] new_GenomeModelService) ''chr1''
     (example_server ''/models/chr1.json'') (Details 0) after_first_call
   \<and> loadedChromosomes after_first_call ''chr1'' = Some 0
   \<and> scale_domain (scale_y (details_heap after_first_call ! 0)) = (Fin 0, Fin 5)
   \<and> scale_range (scale_x (details_heap after_first_call ! 0)) = (Fin 0, Fin 1)
   \<and> scale_range (scale_y (details_heap after_first_call ! 0)) = (Fin 0, Fin (1 / 2))
   \<and> scale_range (scale_z (details_heap after_first_call ! 0)) = (Fin 0, Fin (1 / 5))"
  using stored_scales_span_box_and_normalise
    [of "[]" "''chr1''" "example_server ''/models/chr1.json''" 0 after_first_call
        "[[0, 0, 0], [10, 5, 2]]" Y_axis 10 chr1_json new_GenomeModelService]
  by (simp add: call_returns_def example_server_def resume_built[OF example_build_chr1]
      example_after_first_call new_GenomeModelService_def chr1_details_def)

text \<open>
  The claim as stated fails for a document with a single position: the call succeeds, the
  three lengths and the largest length are zero, and the range of every scale ends in the
  quotient of zero by zero, which is not a number. It fails as well for two positions
  whose first coordinates are 1e308 apart from zero on either side: the length of that
  axis, the largest, is beyond the doubles and so an infinity, and the range of its scale
  ends in the quotient of two infinities, which is not a number. In both cases no axis
  maps to the range from 0 to 1. Last, a call for the id \<^verbatim>\<open>toString\<close> succeeds with a
  member of \<^verbatim>\<open>Object.prototype\<close>, which has no scales; the amended claim speaks of the
  calls that return details and says nothing of this one.
\<close>

theorem single_position_has_no_unit_range_counterexample:
  "fst (loadChromosomeAsync example_server new_GenomeModelService ''chr2'') = Inr (Details 0)
   \<and> largest_axis_length
        (boundingBox (details_heap (snd (loadChromosomeAsync example_server new_GenomeModelService ''chr2'')) ! 0))
     = Fin 0
   \<and> scale_range (scale_x (details_heap (snd (loadChromosomeAsync example_server new_GenomeModelService ''chr2'')) ! 0))
     = (Fin 0, NaN)
   \<and> scale_range (scale_y (details_heap (snd (loadChromosomeAsync example_server new_GenomeModelService ''chr2'')) ! 0))
     = (Fin 0, NaN)
   \<and> scale_range (scale_z (details_heap (snd (loadChromosomeAsync example_server new_GenomeModelService ''chr2'')) ! 0))
     = (Fin 0, NaN)
   \<and> fst (loadChromosomeAsync example_server new_GenomeModelService ''chr3'') = Inr (Details 0)
   \<and> largest_axis_length
        (boundingBox (details_heap (snd (loadChromosomeAsync example_server new_GenomeModelService ''chr3'')) ! 0))
     = PosInfinity
   \<and> axis_length
        (boundingBox (details_heap (snd (loadChromosomeAsync example_server new_GenomeModelService ''chr3'')) ! 0))
        X_axis
     = PosInfinity
   \<and> scale_range (scale_x (details_heap (snd (loadChromosomeAsync example_server new_GenomeModelService ''chr3'')) ! 0))
     = (Fin 0, NaN)
   \<and> fst (loadChromosomeAsync example_server new_GenomeModelService ''toString'')
     = Inr (ObjectPrototypeMember ''toString'')"
  by (simp add: example_load_chr2 example_load_chr3 chr2_details_def chr3_details_def
      largest_axis_length_def axis_length_def finite_result_small ten_to_308_facts)
    (simp add: loadChromosomeAsync_def loadChromosomeAsync_start_def new_GenomeModelService_def
      get_property_def Object_prototype_keys_def)

end
